theory Spec2Isabelle
  imports Main "HOL-Library.Char_ord" "HOL-Library.List_Lexorder" "HOL-Library.Product_Lexorder"
begin

section \<open>Item sync core: data model\<close>

text \<open>
  The embedding follows \<^verbatim>\<open>ItemService.ts\<close> and
  \<^verbatim>\<open>TransitionItemsFromPrimaryToSecondaryDatabaseForUser.ts\<close>.
  JavaScript's \<^verbatim>\<open>undefined\<close> and \<^verbatim>\<open>null\<close> are both \<open>None\<close>;
  numbers that count microseconds, items or pages are integers.
  A \<^verbatim>\<open>Date\<close> is the integer the timer converts it from.
\<close>

type_synonym Date = int

text \<open>
  \<^verbatim>\<open>ContentType\<close> of the common package: the service tests for notes and files;
  any other value is kept as its string.
\<close>

datatype ContentType = Note | File | ItemsKey | OtherContentType string

text \<open>The item entity, with the fields \<^verbatim>\<open>ItemService\<close> reads and writes.\<close>

record Item =
  uuid :: string
  userUuid :: "string option"
  content :: "string option"
  contentType :: "ContentType option"
  contentSize :: nat
  encItemKey :: "string option"
  authHash :: "string option"
  itemsKeyId :: "string option"
  deleted :: bool
  duplicateOf :: "string option"
  updatedWithSession :: "string option"
  lastEditedByUuid :: "string option"
  keySystemIdentifier :: "string option"
  sharedVaultUuid :: "string option"
  createdAtTimestamp :: int
  createdAt :: Date
  updatedAtTimestamp :: int
  updatedAt :: Date

text \<open>The client's upload shape; every field but the uuid is optional.\<close>

record ItemHash =
  hash_uuid :: string
  hash_content :: "string option"
  hash_content_type :: "ContentType option"
  hash_deleted :: "bool option"
  hash_duplicate_of :: "string option"
  hash_auth_hash :: "string option"
  hash_enc_item_key :: "string option"
  hash_items_key_id :: "string option"
  hash_created_at :: "string option"
  hash_created_at_timestamp :: "int option"
  hash_key_system_identifier :: "string option"
  hash_shared_vault_uuid :: "string option"

datatype ConflictType =
  SyncConflict | UuidConflict | ContentTypeError | ReadOnlyError | SharedVaultPermissionError

record ItemConflict =
  unsavedItem :: ItemHash
  serverItem :: "Item option"
  conflictType :: ConflictType

text \<open>
  A token is the base64 text of \<^verbatim>\<open>version:payload\<close>. The model keeps the decoded
  parts: a version 2 token carries the microsecond count \<open>n\<close> whose payload is
  \<open>n / 1000000\<close>, a version 1 token its date string, \<open>TokenEmpty\<close> is the empty
  string, and any other text has no recognised version.
\<close>

datatype Token = TokenEmpty | TokenV1 string | TokenV2 int | TokenUnversioned

datatype Failure = SyncTokenMissingVersion | TypeError | RepositoryError string

datatype Comparison = GreaterOrEqual | Greater

datatype SortKey = ByUpdatedAtTimestamp | ByCreatedAtTimestamp

record ItemQuery =
  q_userUuid :: "string option"
  q_includeSharedVaultUuids :: "string list option"
  q_exclusiveSharedVaultUuids :: "string list option"
  q_lastSyncTime :: "int option"
  q_syncTimeComparison :: "Comparison option"
  q_contentType :: "ContentType option"
  q_deleted :: "bool option"
  q_uuids :: "string list option"
  q_sortBy :: SortKey
  q_limit :: "int option"

record GetItemsDTO =
  dto_userUuid :: string
  dto_syncToken :: "Token option"
  dto_cursorToken :: "Token option"
  dto_limit :: "int option"
  dto_contentType :: "ContentType option"
  dto_sharedVaultUuids :: "string list option"

record GetItemsResult =
  items :: "Item list"
  cursorToken :: "Token option"

datatype SaveOperation = AddToSharedVault string | RemoveFromSharedVault string | OtherSaveOperation

record ItemSaveValidationResult =
  passed :: bool
  conflict :: "ItemConflict option"
  skipped :: "Item option"

record SaveItemsDTO =
  save_userUuid :: string
  save_sessionUuid :: "string option"
  save_apiVersion :: string
  save_snjsVersion :: string
  save_readOnlyAccess :: bool
  save_itemHashes :: "ItemHash list"

record SaveItemsResult =
  savedItems :: "Item list"
  conflicts :: "ItemConflict list"
  syncToken :: Token

datatype DomainEvent =
    ItemRevisionCreationRequested string string
  | DuplicateItemSynced string string

datatype UserEventCall =
    RemoveUserEventsAfterItemIsAddedToSharedVault string string string
  | CreateItemRemovedFromSharedVaultUserEvent string string string

text \<open>
  What \<^verbatim>\<open>saveItems\<close> changes: the rows of the item repository by uuid, the number
  of clock readings taken so far, the events handed to the publisher, the calls
  made to the user event service and the uuids whose failed save was logged.
\<close>

record World =
  itemStore :: "string \<Rightarrow> Item option"
  clockReadings :: nat
  published :: "DomainEvent list"
  userEventCalls :: "UserEventCall list"
  errorLog :: "string list"

text \<open>
  The constructor's collaborators. The timer's \<open>n\<close>-th reading is
  \<open>getTimestampInMicroseconds n\<close>. \<open>projectFullByteLength\<close> is the byte length of the
  JSON of the item's full projection. \<open>saveThrows\<close> says for which items the
  repository's \<^verbatim>\<open>save\<close> throws, and with which message.
\<close>

record ItemServiceDeps =
  revisionFrequency :: int
  contentSizeTransferLimit :: int
  maxItemsSyncLimit :: int
  getTimestampInMicroseconds :: "nat \<Rightarrow> int"
  convertMicrosecondsToSeconds :: "int \<Rightarrow> int"
  convertMicrosecondsToDate :: "int \<Rightarrow> Date"
  convertStringDateToMicroseconds :: "string \<Rightarrow> int"
  convertStringDateToDate :: "string \<Rightarrow> Date"
  findAllForUser :: "string \<Rightarrow> string list"
  computeItemUuidsToFetch :: "ItemQuery \<Rightarrow> int \<Rightarrow> string list"
  findAll :: "ItemQuery \<Rightarrow> Item list"
  countAll :: "ItemQuery \<Rightarrow> int"
  validate :: "string \<Rightarrow> string \<Rightarrow> string \<Rightarrow> ItemHash \<Rightarrow> Item option \<Rightarrow> ItemSaveValidationResult"
  itemFactoryCreate :: "World \<Rightarrow> string \<Rightarrow> ItemHash \<Rightarrow> string option \<Rightarrow> Item"
  projectFullByteLength :: "Item \<Rightarrow> nat"
  GetSaveOperation :: "Item \<Rightarrow> ItemHash \<Rightarrow> string \<Rightarrow> SaveOperation"
  saveThrows :: "World \<Rightarrow> Item \<Rightarrow> string option"

section \<open>ItemService.getItems\<close>

definition DEFAULT_ITEMS_LIMIT :: int where
  "DEFAULT_ITEMS_LIMIT = 150"

text \<open>
  \<^verbatim>\<open>getLastSyncTime\<close>: the cursor token wins over the sync token; no token, or
  the empty string, gives \<^verbatim>\<open>undefined\<close>; an unknown version throws.
\<close>

definition getLastSyncTime ::
  "(string \<Rightarrow> int) \<Rightarrow> Token option \<Rightarrow> Token option \<Rightarrow> Failure + int option" where
  "getLastSyncTime conv syncTok cursorTok =
     (case (case cursorTok of Some c \<Rightarrow> Some c | None \<Rightarrow> syncTok) of
        None \<Rightarrow> Inr None
      | Some TokenEmpty \<Rightarrow> Inr None
      | Some (TokenV1 d) \<Rightarrow> Inr (Some (conv d))
      | Some (TokenV2 n) \<Rightarrow> Inr (Some n)
      | Some TokenUnversioned \<Rightarrow> Inl SyncTokenMissingVersion)"

text \<open>Lines 51-52: the limit of the request and its upper bound.\<close>

definition requestLimit :: "int option \<Rightarrow> int" where
  "requestLimit l =
     (case l of None \<Rightarrow> DEFAULT_ITEMS_LIMIT
      | Some n \<Rightarrow> if n < 1 then DEFAULT_ITEMS_LIMIT else n)"

definition upperBoundLimit :: "int \<Rightarrow> int option \<Rightarrow> int" where
  "upperBoundLimit maxLimit l =
     (let limit = requestLimit l in if limit < maxLimit then limit else maxLimit)"

text \<open>Lines 54-71: the query built from the request.\<close>

definition buildItemQuery :: "ItemServiceDeps \<Rightarrow> GetItemsDTO \<Rightarrow> int option \<Rightarrow> ItemQuery" where
  "buildItemQuery c dto lastSyncTime =
     (let userSharedVaultUuids = findAllForUser c (dto_userUuid dto);
          exclusiveSharedVaultUuids =
            (case dto_sharedVaultUuids dto of
               Some vs \<Rightarrow> Some (filter (\<lambda>v. v \<in> set userSharedVaultUuids) vs)
             | None \<Rightarrow> None)
      in \<lparr> q_userUuid = Some (dto_userUuid dto),
           q_includeSharedVaultUuids =
             (case dto_sharedVaultUuids dto of None \<Rightarrow> Some userSharedVaultUuids | Some _ \<Rightarrow> None),
           q_exclusiveSharedVaultUuids = exclusiveSharedVaultUuids,
           q_lastSyncTime = lastSyncTime,
           q_syncTimeComparison =
             Some (case dto_cursorToken dto of
                     None \<Rightarrow> Greater
                   | Some TokenEmpty \<Rightarrow> Greater
                   | Some _ \<Rightarrow> GreaterOrEqual),
           q_contentType = dto_contentType dto,
           q_deleted =
             (case lastSyncTime of None \<Rightarrow> Some False
              | Some t \<Rightarrow> if t = 0 then Some False else None),
           q_uuids = None,
           q_sortBy = ByUpdatedAtTimestamp,
           q_limit = Some (upperBoundLimit (maxItemsSyncLimit c) (dto_limit dto)) \<rparr>)"

definition uuidsQuery :: "string list \<Rightarrow> ItemQuery" where
  "uuidsQuery us =
     \<lparr> q_userUuid = None, q_includeSharedVaultUuids = None, q_exclusiveSharedVaultUuids = None,
       q_lastSyncTime = None, q_syncTimeComparison = None, q_contentType = None,
       q_deleted = None, q_uuids = Some us, q_sortBy = ByUpdatedAtTimestamp, q_limit = None \<rparr>"

text \<open>
  Lines 73-96. Reading \<^verbatim>\<open>items[items.length - 1].updatedAtTimestamp\<close> on an empty
  array throws a TypeError. The cursor token carries the last item's timestamp
  itself.
\<close>

definition getItems :: "ItemServiceDeps \<Rightarrow> GetItemsDTO \<Rightarrow> Failure + GetItemsResult" where
  "getItems c dto =
     (case getLastSyncTime (convertStringDateToMicroseconds c) (dto_syncToken dto) (dto_cursorToken dto) of
        Inl e \<Rightarrow> Inl e
      | Inr lastSyncTime \<Rightarrow>
          (let itemQuery = buildItemQuery c dto lastSyncTime;
               itemUuidsToFetch = computeItemUuidsToFetch c itemQuery (contentSizeTransferLimit c);
               its = (if itemUuidsToFetch \<noteq> [] then findAll c (uuidsQuery itemUuidsToFetch) else []);
               totalItemsCount = countAll c itemQuery
           in if totalItemsCount > upperBoundLimit (maxItemsSyncLimit c) (dto_limit dto)
              then (case its of
                      [] \<Rightarrow> Inl TypeError
                    | _ # _ \<Rightarrow>
                        Inr \<lparr> items = its,
                              cursorToken = Some (TokenV2 (updatedAtTimestamp (last its))) \<rparr>)
              else Inr \<lparr> items = its, cursorToken = None \<rparr>))"

section \<open>ItemService.saveItems\<close>

text \<open>
  JavaScript truthiness of an optional string, content type, or number: absent,
  the empty string and zero are falsy.
\<close>

definition truthy :: "string option \<Rightarrow> bool" where
  "truthy x = (case x of None \<Rightarrow> False | Some s \<Rightarrow> s \<noteq> [])"

definition truthyType :: "ContentType option \<Rightarrow> bool" where
  "truthyType x = (case x of None \<Rightarrow> False | Some (OtherContentType s) \<Rightarrow> s \<noteq> [] | Some _ \<Rightarrow> True)"

definition truthyNumber :: "int option \<Rightarrow> bool" where
  "truthyNumber x = (case x of None \<Rightarrow> False | Some n \<Rightarrow> n \<noteq> 0)"

text \<open>
  \<^verbatim>\<open>Array.prototype.sort\<close> with a comparator, as the binary insertion sort V8
  runs on a short array: the elements are taken from left to right, and each is
  placed in the sorted part before the first element it compares below. With a
  comparator that never answers zero, elements with equal keys come out in
  reverse. The sort works in place: the array the caller holds is the sorted one.
\<close>

fun insertByComparator :: "('a \<Rightarrow> 'a \<Rightarrow> int) \<Rightarrow> 'a \<Rightarrow> 'a list \<Rightarrow> 'a list" where
  "insertByComparator cmp x [] = [x]"
| "insertByComparator cmp x (y # ys) =
     (if cmp x y < 0 then x # y # ys else y # insertByComparator cmp x ys)"

fun insertAll :: "('a \<Rightarrow> 'a \<Rightarrow> int) \<Rightarrow> 'a list \<Rightarrow> 'a list \<Rightarrow> 'a list" where
  "insertAll cmp sortedPart [] = sortedPart"
| "insertAll cmp sortedPart (x # xs) = insertAll cmp (insertByComparator cmp x sortedPart) xs"

definition arraySort :: "('a \<Rightarrow> 'a \<Rightarrow> int) \<Rightarrow> 'a list \<Rightarrow> 'a list" where
  "arraySort cmp xs = insertAll cmp [] xs"

text \<open>Line 192: the comparator of \<^verbatim>\<open>calculateSyncToken\<close>.\<close>

definition compareUpdatedAt :: "Item \<Rightarrow> Item \<Rightarrow> int" where
  "compareUpdatedAt itemA itemB =
     (if updatedAtTimestamp itemA > updatedAtTimestamp itemB then 1 else - 1)"

text \<open>
  \<^verbatim>\<open>calculateSyncToken\<close> returns the token and leaves \<^verbatim>\<open>savedItems\<close> sorted, so
  the model returns both.
\<close>

definition calculateSyncToken :: "int \<Rightarrow> Item list \<Rightarrow> Token \<times> Item list" where
  "calculateSyncToken lastUpdatedTimestamp saved =
     (if saved \<noteq> []
      then (let sortedItems = arraySort compareUpdatedAt saved
            in (TokenV2 (updatedAtTimestamp (last sortedItems) + 1), sortedItems))
      else (TokenV2 (lastUpdatedTimestamp + 1), saved))"

text \<open>
  Modelled from the spec: the item repository's \<^verbatim>\<open>findByUuid\<close> and \<^verbatim>\<open>save\<close>
  (section 4.5; the repository is not among the sources). \<^verbatim>\<open>save\<close> upserts by
  uuid and returns the persisted entity, or throws.
\<close>

definition findByUuid :: "World \<Rightarrow> string \<Rightarrow> Item option" where
  "findByUuid w u = itemStore w u"

definition repositorySave :: "ItemServiceDeps \<Rightarrow> World \<Rightarrow> Item \<Rightarrow> Failure + (Item \<times> World)" where
  "repositorySave d w i =
     (case saveThrows d w i of
        Some msg \<Rightarrow> Inl (RepositoryError msg)
      | None \<Rightarrow> Inr (i, w\<lparr>itemStore := (itemStore w)(uuid i \<mapsto> i)\<rparr>))"

definition publish :: "DomainEvent \<Rightarrow> World \<Rightarrow> World" where
  "publish e w = w\<lparr>published := published w @ [e]\<rparr>"

text \<open>
  Lines 219-248 of \<^verbatim>\<open>updateExistingItem\<close>: the fields copied from the hash, in
  the order of the source.
\<close>

definition copyHashFields :: "Item \<Rightarrow> ItemHash \<Rightarrow> string \<Rightarrow> string option \<Rightarrow> Item" where
  "copyHashFields existingItem h user session =
     (let i1 = existingItem\<lparr> updatedWithSession := session, contentSize := 0,
                              lastEditedByUuid := Some user,
                              keySystemIdentifier := hash_key_system_identifier h,
                              sharedVaultUuid := hash_shared_vault_uuid h \<rparr>;
          i2 = (if truthy (hash_content h) then i1\<lparr>content := hash_content h\<rparr> else i1);
          i3 = (if truthyType (hash_content_type h) then i2\<lparr>contentType := hash_content_type h\<rparr> else i2);
          i4 = (case hash_deleted h of Some b \<Rightarrow> i3\<lparr>deleted := b\<rparr> | None \<Rightarrow> i3);
          i5 = (if truthy (hash_duplicate_of h) then i4\<lparr>duplicateOf := hash_duplicate_of h\<rparr> else i4);
          i6 = (if truthy (hash_auth_hash h) then i5\<lparr>authHash := hash_auth_hash h\<rparr> else i5);
          i7 = (if truthy (hash_enc_item_key h) then i6\<lparr>encItemKey := hash_enc_item_key h\<rparr> else i6)
      in if truthy (hash_items_key_id h) then i7\<lparr>itemsKeyId := hash_items_key_id h\<rparr> else i7)"

text \<open>Lines 255-261: the creation time, from the timestamp or else from the date string.\<close>

definition copyCreatedAt :: "ItemServiceDeps \<Rightarrow> ItemHash \<Rightarrow> Item \<Rightarrow> Item" where
  "copyCreatedAt d h i =
     (if truthyNumber (hash_created_at_timestamp h)
      then (case hash_created_at_timestamp h of
              Some n \<Rightarrow> i\<lparr>createdAtTimestamp := n, createdAt := convertMicrosecondsToDate d n\<rparr>
            | None \<Rightarrow> i)
      else if truthy (hash_created_at h)
      then (case hash_created_at h of
              Some s \<Rightarrow> i\<lparr>createdAtTimestamp := convertStringDateToMicroseconds d s,
                          createdAt := convertStringDateToDate d s\<rparr>
            | None \<Rightarrow> i)
      else i)"

text \<open>Lines 268-275: the tombstone.\<close>

definition clearIfDeleted :: "ItemHash \<Rightarrow> Item \<Rightarrow> Item" where
  "clearIfDeleted h i =
     (if hash_deleted h = Some True
      then i\<lparr> deleted := True, content := None, contentSize := 0,
              encItemKey := None, authHash := None, itemsKeyId := None \<rparr>
      else i)"

text \<open>
  Lines 219-275: the entity as it is handed to the repository, given the clock
  reading \<open>now\<close> of line 250.
\<close>

definition entityToSave :: "ItemServiceDeps \<Rightarrow> Item \<Rightarrow> ItemHash \<Rightarrow> string \<Rightarrow> string option \<Rightarrow> int \<Rightarrow> Item" where
  "entityToSave d existingItem h user session now =
     (let i1 = copyCreatedAt d h (copyHashFields existingItem h user session);
          i2 = i1\<lparr>updatedAtTimestamp := now, updatedAt := convertMicrosecondsToDate d now\<rparr>;
          i3 = i2\<lparr>contentSize := projectFullByteLength d i2\<rparr>
      in clearIfDeleted h i3)"

definition isNoteOrFile :: "ContentType option \<Rightarrow> bool" where
  "isNoteOrFile t = (t = Some Note \<or> t = Some File)"

text \<open>Lines 279-305: the events and user events that follow a saved update.\<close>

definition afterUpdate ::
  "ItemServiceDeps \<Rightarrow> SaveOperation \<Rightarrow> string \<Rightarrow> int \<Rightarrow> bool \<Rightarrow> Item \<Rightarrow> World \<Rightarrow> World" where
  "afterUpdate d saveOperation user secondsFromLastUpdate wasMarkedAsDuplicate savedItem w =
     (let w1 = (if secondsFromLastUpdate \<ge> revisionFrequency d \<and> isNoteOrFile (contentType savedItem)
                   \<and> truthy (userUuid savedItem)
                then publish (ItemRevisionCreationRequested (uuid savedItem) (the (userUuid savedItem))) w
                else w);
          w2 = (if wasMarkedAsDuplicate \<and> truthy (userUuid savedItem)
                then publish (DuplicateItemSynced (uuid savedItem) (the (userUuid savedItem))) w1
                else w1)
      in case saveOperation of
           AddToSharedVault v \<Rightarrow>
             w2\<lparr>userEventCalls := userEventCalls w2 @
                   [RemoveUserEventsAfterItemIsAddedToSharedVault user (uuid savedItem) v]\<rparr>
         | RemoveFromSharedVault v \<Rightarrow>
             w2\<lparr>userEventCalls := userEventCalls w2 @
                   [CreateItemRemovedFromSharedVaultUserEvent user (uuid savedItem) v]\<rparr>
         | OtherSaveOperation \<Rightarrow> w2)"

definition updateExistingItem ::
  "ItemServiceDeps \<Rightarrow> Item \<Rightarrow> ItemHash \<Rightarrow> string \<Rightarrow> string option \<Rightarrow> World \<Rightarrow> Failure + (Item \<times> World)" where
  "updateExistingItem d existingItem h user session w =
     (let saveOperation = GetSaveOperation d existingItem h user;
          wasMarkedAsDuplicate = (truthy (hash_duplicate_of h) \<and> \<not> truthy (duplicateOf existingItem));
          now = getTimestampInMicroseconds d (clockReadings w);
          w1 = w\<lparr>clockReadings := Suc (clockReadings w)\<rparr>;
          secondsFromLastUpdate = convertMicrosecondsToSeconds d (now - updatedAtTimestamp existingItem)
      in case repositorySave d w1 (entityToSave d existingItem h user session now) of
           Inl e \<Rightarrow> Inl e
         | Inr (savedItem, w2) \<Rightarrow>
             Inr (savedItem,
                  afterUpdate d saveOperation user secondsFromLastUpdate wasMarkedAsDuplicate savedItem w2))"

definition saveNewItem ::
  "ItemServiceDeps \<Rightarrow> string \<Rightarrow> ItemHash \<Rightarrow> string option \<Rightarrow> World \<Rightarrow> Failure + (Item \<times> World)" where
  "saveNewItem d user h session w =
     (case repositorySave d w (itemFactoryCreate d w user h session) of
        Inl e \<Rightarrow> Inl e
      | Inr (savedItem, w1) \<Rightarrow>
          (let w2 = (if isNoteOrFile (contentType savedItem) \<and> truthy (userUuid savedItem)
                     then publish (ItemRevisionCreationRequested (uuid savedItem) (the (userUuid savedItem))) w1
                     else w1);
               w3 = (if truthy (duplicateOf savedItem) \<and> truthy (userUuid savedItem)
                     then publish (DuplicateItemSynced (uuid savedItem) (the (userUuid savedItem))) w2
                     else w2)
           in Inr (savedItem, w3)))"

text \<open>
  Lines 105-159: one turn of the loop over \<^verbatim>\<open>dto.itemHashes\<close>. An error of
  \<^verbatim>\<open>updateExistingItem\<close> is not caught and ends \<^verbatim>\<open>saveItems\<close>; an error of
  \<^verbatim>\<open>saveNewItem\<close> is caught, logged and turned into a conflict.
\<close>

definition optionToList :: "'a option \<Rightarrow> 'a list" where
  "optionToList x = (case x of None \<Rightarrow> [] | Some v \<Rightarrow> [v])"

definition saveItemHash ::
  "ItemServiceDeps \<Rightarrow> SaveItemsDTO \<Rightarrow> ItemHash \<Rightarrow> Item list \<times> ItemConflict list \<times> World
     \<Rightarrow> Failure + (Item list \<times> ItemConflict list \<times> World)" where
  "saveItemHash d dto h acc =
     (case acc of (saved, confl, w) \<Rightarrow>
        (let existingItem = findByUuid w (hash_uuid h)
         in if save_readOnlyAccess dto
            then Inr (saved,
                      confl @ [\<lparr>unsavedItem = h, serverItem = existingItem, conflictType = ReadOnlyError\<rparr>],
                      w)
            else (let processingResult =
                        validate d (save_userUuid dto) (save_apiVersion dto) (save_snjsVersion dto) h existingItem
                  in if \<not> passed processingResult
                     then Inr (saved @ optionToList (skipped processingResult),
                               confl @ optionToList (conflict processingResult),
                               w)
                     else (case existingItem of
                             Some e \<Rightarrow>
                               (case updateExistingItem d e h (save_userUuid dto) (save_sessionUuid dto) w of
                                  Inl err \<Rightarrow> Inl err
                                | Inr (updatedItem, w') \<Rightarrow> Inr (saved @ [updatedItem], confl, w'))
                           | None \<Rightarrow>
                               (case saveNewItem d (save_userUuid dto) h (save_sessionUuid dto) w of
                                  Inl err \<Rightarrow>
                                    Inr (saved,
                                         confl @ [\<lparr>unsavedItem = h, serverItem = None, conflictType = UuidConflict\<rparr>],
                                         w\<lparr>errorLog := errorLog w @ [hash_uuid h]\<rparr>)
                                | Inr (newItem, w') \<Rightarrow> Inr (saved @ [newItem], confl, w'))))))"

fun saveItemsLoop ::
  "ItemServiceDeps \<Rightarrow> SaveItemsDTO \<Rightarrow> ItemHash list \<Rightarrow> Item list \<times> ItemConflict list \<times> World
     \<Rightarrow> Failure + (Item list \<times> ItemConflict list \<times> World)" where
  "saveItemsLoop d dto [] acc = Inr acc"
| "saveItemsLoop d dto (h # hs) acc =
     (case saveItemHash d dto h acc of
        Inl err \<Rightarrow> Inl err
      | Inr acc' \<Rightarrow> saveItemsLoop d dto hs acc')"

definition saveItems :: "ItemServiceDeps \<Rightarrow> SaveItemsDTO \<Rightarrow> World \<Rightarrow> Failure + (SaveItemsResult \<times> World)" where
  "saveItems d dto w =
     (let lastUpdatedTimestamp = getTimestampInMicroseconds d (clockReadings w);
          w0 = w\<lparr>clockReadings := Suc (clockReadings w)\<rparr>
      in case saveItemsLoop d dto (save_itemHashes dto) ([], [], w0) of
           Inl err \<Rightarrow> Inl err
         | Inr (saved, confl, w') \<Rightarrow>
             (case calculateSyncToken lastUpdatedTimestamp saved of
                (token, sortedSaved) \<Rightarrow>
                  Inr (\<lparr>savedItems = sortedSaved, conflicts = confl, syncToken = token\<rparr>, w')))"

section \<open>The collaborators of getItems, from the specification\<close>

text \<open>
  Modelled from the spec: the item repository's \<^verbatim>\<open>find_all\<close> and \<^verbatim>\<open>count_all\<close>
  (section 4.5) over the rows \<open>rows\<close> of the store; the repository is not among the
  sources. A query keeps the rows that pass each filter it sets. How a query with
  a user reaches the user's own rows and the rows of the user's vaults is the
  parameter \<open>visible\<close>. The rows come ordered by \<open>updated_at_timestamp\<close>, ties by
  uuid (section 5), and cut to the limit of the query.
\<close>

definition matchesQuery ::
  "(string \<Rightarrow> string list option \<Rightarrow> string list option \<Rightarrow> Item \<Rightarrow> bool) \<Rightarrow> ItemQuery \<Rightarrow> Item \<Rightarrow> bool" where
  "matchesQuery visible q i =
     ((case q_userUuid q of
         None \<Rightarrow> True
       | Some u \<Rightarrow> visible u (q_includeSharedVaultUuids q) (q_exclusiveSharedVaultUuids q) i) \<and>
      (case q_contentType q of None \<Rightarrow> True | Some t \<Rightarrow> contentType i = Some t) \<and>
      (case q_deleted q of None \<Rightarrow> True | Some b \<Rightarrow> deleted i = b) \<and>
      (case q_uuids q of None \<Rightarrow> True | Some us \<Rightarrow> uuid i \<in> set us) \<and>
      (case q_lastSyncTime q of
         None \<Rightarrow> True
       | Some t \<Rightarrow>
           (case q_syncTimeComparison q of
              Some GreaterOrEqual \<Rightarrow> updatedAtTimestamp i \<ge> t
            | _ \<Rightarrow> updatedAtTimestamp i > t)))"

definition limited :: "int option \<Rightarrow> 'a list \<Rightarrow> 'a list" where
  "limited l xs = (case l of None \<Rightarrow> xs | Some n \<Rightarrow> take (nat n) xs)"

definition specFindAll ::
  "(string \<Rightarrow> string list option \<Rightarrow> string list option \<Rightarrow> Item \<Rightarrow> bool) \<Rightarrow> Item list \<Rightarrow> ItemQuery \<Rightarrow> Item list" where
  "specFindAll visible rows q =
     limited (q_limit q)
       (sort_key (\<lambda>i. (updatedAtTimestamp i, uuid i)) (filter (matchesQuery visible q) rows))"

definition specCountAll ::
  "(string \<Rightarrow> string list option \<Rightarrow> string list option \<Rightarrow> Item \<Rightarrow> bool) \<Rightarrow> Item list \<Rightarrow> ItemQuery \<Rightarrow> int" where
  "specCountAll visible rows q = int (length (filter (matchesQuery visible q) rows))"

text \<open>
  Modelled from the spec: the transfer calculator (section 4.2), which is not
  among the sources. It walks the \<open>(uuid, content_size)\<close> pairs of the query's
  rows: a first item larger than the budget is taken alone; otherwise items are
  taken while the running total stays within the budget.
\<close>

fun withinBudget :: "int \<Rightarrow> int \<Rightarrow> (string \<times> nat) list \<Rightarrow> string list" where
  "withinBudget budget running [] = []"
| "withinBudget budget running ((u, sz) # rest) =
     (if running + int sz \<le> budget then u # withinBudget budget (running + int sz) rest else [])"

definition specComputeItemUuidsToFetch ::
  "(string \<Rightarrow> string list option \<Rightarrow> string list option \<Rightarrow> Item \<Rightarrow> bool) \<Rightarrow> Item list \<Rightarrow> ItemQuery \<Rightarrow> int
     \<Rightarrow> string list" where
  "specComputeItemUuidsToFetch visible rows q budget =
     (case map (\<lambda>i. (uuid i, contentSize i)) (specFindAll visible rows q) of
        [] \<Rightarrow> []
      | (u, sz) # rest \<Rightarrow>
          if int sz > budget then [u] else u # withinBudget budget (int sz) rest)"

definition withSpecRepository ::
  "(string \<Rightarrow> string list option \<Rightarrow> string list option \<Rightarrow> Item \<Rightarrow> bool) \<Rightarrow> Item list \<Rightarrow> ItemServiceDeps
     \<Rightarrow> ItemServiceDeps" where
  "withSpecRepository visible rows d =
     d\<lparr> computeItemUuidsToFetch := specComputeItemUuidsToFetch visible rows,
        findAll := specFindAll visible rows,
        countAll := specCountAll visible rows \<rparr>"

section \<open>Sample collaborators and requests\<close>

text \<open>
  A query that reaches a user's own rows only, and a stored note of the user
  \<open>alice\<close> that lives in a vault, given by its uuid, size and last update.
\<close>

definition ownRows :: "string \<Rightarrow> string list option \<Rightarrow> string list option \<Rightarrow> Item \<Rightarrow> bool" where
  "ownRows u incl excl i = (userUuid i = Some u)"

definition sampleItem :: "string \<Rightarrow> nat \<Rightarrow> int \<Rightarrow> Item" where
  "sampleItem u sz t =
     \<lparr> uuid = u, userUuid = Some ''alice'', content = Some ''payload'', contentType = Some Note,
       contentSize = sz, encItemKey = Some ''key'', authHash = Some ''auth'',
       itemsKeyId = Some ''ik'', deleted = False, duplicateOf = None, updatedWithSession = None,
       lastEditedByUuid = None, keySystemIdentifier = Some ''ks'', sharedVaultUuid = Some ''vault'',
       createdAtTimestamp = 1, createdAt = 1, updatedAtTimestamp = t, updatedAt = t \<rparr>"

definition sampleHash :: "string \<Rightarrow> ItemHash" where
  "sampleHash u =
     \<lparr> hash_uuid = u, hash_content = None, hash_content_type = None, hash_deleted = None,
       hash_duplicate_of = None, hash_auth_hash = None, hash_enc_item_key = None,
       hash_items_key_id = None, hash_created_at = None, hash_created_at_timestamp = None,
       hash_key_system_identifier = None, hash_shared_vault_uuid = None \<rparr>"

text \<open>
  A validator that passes every hash but \<open>''skip''\<close>, for which it answers with
  the skipped server item; a factory that builds a bare item stamped by the clock;
  a repository that fails to save the uuid \<open>''broken''\<close>; a clock that reads
  \<open>100, 101, ...\<close>.
\<close>

definition sampleDeps :: ItemServiceDeps where
  "sampleDeps =
     \<lparr> revisionFrequency = 300, contentSizeTransferLimit = 100, maxItemsSyncLimit = 300,
       getTimestampInMicroseconds = (\<lambda>n. 100 + int n),
       convertMicrosecondsToSeconds = (\<lambda>n. n div 1000000),
       convertMicrosecondsToDate = (\<lambda>n. n),
       convertStringDateToMicroseconds = (\<lambda>s. 0),
       convertStringDateToDate = (\<lambda>s. 0),
       findAllForUser = (\<lambda>u. []),
       computeItemUuidsToFetch = (\<lambda>q b. []),
       findAll = (\<lambda>q. []),
       countAll = (\<lambda>q. 0),
       validate = (\<lambda>user api snjs h existing.
          if hash_uuid h = ''skip''
          then \<lparr>passed = False, conflict = None, skipped = existing\<rparr>
          else \<lparr>passed = True, conflict = None, skipped = None\<rparr>),
       itemFactoryCreate = (\<lambda>w user h session.
          (sampleItem (hash_uuid h) 0 (100 + int (clockReadings w)))),
       projectFullByteLength = (\<lambda>i. 7),
       GetSaveOperation = (\<lambda>existing h user. OtherSaveOperation),
       saveThrows = (\<lambda>w i. if uuid i = ''broken'' then Some ''deadlock'' else None) \<rparr>"

definition sampleRows :: "Item list" where
  "sampleRows = [sampleItem ''A'' 60 10, sampleItem ''B'' 60 20, sampleItem ''C'' 10 30]"

definition sampleRequest :: "int option \<Rightarrow> GetItemsDTO" where
  "sampleRequest l =
     \<lparr> dto_userUuid = ''alice'', dto_syncToken = Some (TokenV2 5), dto_cursorToken = None,
       dto_limit = l, dto_contentType = None, dto_sharedVaultUuids = None \<rparr>"

definition sampleWorld :: "Item list \<Rightarrow> World" where
  "sampleWorld rows =
     \<lparr> itemStore = map_of (map (\<lambda>i. (uuid i, i)) rows), clockReadings = 0, published = [],
       userEventCalls = [], errorLog = [] \<rparr>"

definition sampleSave :: "ItemHash list \<Rightarrow> SaveItemsDTO" where
  "sampleSave hs =
     \<lparr> save_userUuid = ''alice'', save_sessionUuid = None, save_apiVersion = ''20200115'',
       save_snjsVersion = ''2.0.0'', save_readOnlyAccess = False, save_itemHashes = hs \<rparr>"

section \<open>Transition of a user's items between the two databases\<close>

text \<open>
  \<^verbatim>\<open>TransitionItemsFromPrimaryToSecondaryDatabaseForUser\<close>. The use case reads the
  user's items from the secondary repository in pages, writes them to the primary
  repository, checks them, and deletes them from the secondary repository.
\<close>

datatype TransitionStatus = NotStarted | InProgress | Verified | Failed

text \<open>The event \<^verbatim>\<open>updateTransitionStatus\<close> publishes: user, status, type and timestamp.\<close>

datatype TransitionEvent = TransitionStatusUpdated string TransitionStatus string int

text \<open>
  The item entity of the use case: its uuid, owner, vault, timestamps and the
  rest of its properties.
\<close>

record TransitionItem =
  item_uuid :: string
  item_userUuid :: string
  item_sharedVaultUuid :: "string option"
  item_createdAt :: int
  item_updatedAt :: int
  item_props :: string

datatype Problem =
    SecondaryRepositoryNotSet
  | TransitionStatusRepositoryNotSet
  | InvalidUuid string
  | Caught string
  | CountMismatch string nat nat
  | ItemNotFoundInPrimary string
  | ItemNotIdentical TransitionItem TransitionItem

datatype Result = Ok | Fail Problem

text \<open>The lines the use case hands to the logger.\<close>

datatype LogEntry =
    LogTransitioningItems
  | LogUserAlreadyMigrated
  | LogUserHasItemsInSecondary nat
  | LogMigratingItems
  | LogMigratingFromPage int
  | LogMigrationProgress int
  | LogOlderInSecondary string
  | LogRemovingItem string
  | LogErroredWhenSaving string string
  | LogItemsMigrated
  | LogCheckingIntegrity
  | LogCheckingIntegrityFromPage int
  | LogIntegrityOlderInSecondary string
  | LogCleaningUp
  | LogCleanUpFailed Problem
  | LogTransitionedItems int

datatype Operation =
    PrimaryCountAll | PrimaryFindByUuid | PrimaryRemoveByUuid | PrimarySave
  | SecondaryCountAll | SecondaryFindAll | SecondaryDeleteByUserUuidAndNotInSharedVault
  | GetPagingProgress | SetPagingProgress | GetIntegrityProgress | SetIntegrityProgress
  | Publish

record TransitionWorld =
  primaryItems :: "TransitionItem list"
  secondaryItems :: "TransitionItem list"
  pagingProgress :: "string \<Rightarrow> int"
  integrityProgress :: "string \<Rightarrow> int"
  publishedEvents :: "TransitionEvent list"
  logged :: "LogEntry list"
  sleeps :: nat
  timerReadings :: nat

text \<open>
  The constructor's collaborators: whether the two optional repositories are
  set, the page size, \<^verbatim>\<open>Uuid.create\<close>, \<^verbatim>\<open>isIdenticalTo\<close>, the timer's readings,
  and for every call to a repository or the publisher whether it throws in the
  given state, and with which message.
\<close>

record TransitionDeps =
  secondaryItemRepositoryIsSet :: bool
  transitionStatusRepositoryIsSet :: bool
  pageSize :: int
  uuidCreate :: "string \<Rightarrow> string + string"
  isIdenticalTo :: "TransitionItem \<Rightarrow> TransitionItem \<Rightarrow> bool"
  timerReading :: "nat \<Rightarrow> int"
  throws :: "Operation \<Rightarrow> TransitionWorld \<Rightarrow> string option"

record TransitionDTO =
  transition_userUuid :: string
  transition_timestamp :: int

text \<open>
  A step either throws a message or gives a value, and leaves a state either
  way.
\<close>

type_synonym 'a step = "(string + 'a) \<times> TransitionWorld"

definition attempt :: "TransitionDeps \<Rightarrow> Operation \<Rightarrow> TransitionWorld \<Rightarrow> 'a \<Rightarrow> TransitionWorld \<Rightarrow> 'a step" where
  "attempt d operation w v w' =
     (case throws d operation w of Some msg \<Rightarrow> (Inl msg, w) | None \<Rightarrow> (Inr v, w'))"

definition logInfo :: "LogEntry \<Rightarrow> TransitionWorld \<Rightarrow> TransitionWorld" where
  "logInfo e w = w\<lparr>logged := logged w @ [e]\<rparr>"

text \<open>
  Modelled from the spec: the item repository (section 4.5) over a list of rows,
  and the paging and integrity counters of the transition status repository;
  neither repository is among the sources. \<^verbatim>\<open>findAll\<close> gives one page of the
  user's rows by creation time; \<^verbatim>\<open>save\<close> upserts by uuid.
\<close>

definition rowsOfUser :: "string \<Rightarrow> TransitionItem list \<Rightarrow> TransitionItem list" where
  "rowsOfUser user rows = filter (\<lambda>i. item_userUuid i = user) rows"

definition pageOfUser :: "string \<Rightarrow> int \<Rightarrow> int \<Rightarrow> TransitionItem list \<Rightarrow> TransitionItem list" where
  "pageOfUser user offset limit rows =
     take (nat limit) (drop (nat offset) (sort_key item_createdAt (rowsOfUser user rows)))"

definition rowByUuid :: "string \<Rightarrow> TransitionItem list \<Rightarrow> TransitionItem option" where
  "rowByUuid u rows = find (\<lambda>i. item_uuid i = u) rows"

definition withoutUuid :: "string \<Rightarrow> TransitionItem list \<Rightarrow> TransitionItem list" where
  "withoutUuid u rows = filter (\<lambda>i. item_uuid i \<noteq> u) rows"

definition upserted :: "TransitionItem \<Rightarrow> TransitionItem list \<Rightarrow> TransitionItem list" where
  "upserted i rows = withoutUuid (item_uuid i) rows @ [i]"

definition withoutPrivateRowsOfUser :: "string \<Rightarrow> TransitionItem list \<Rightarrow> TransitionItem list" where
  "withoutPrivateRowsOfUser user rows =
     filter (\<lambda>i. \<not> (item_userUuid i = user \<and> item_sharedVaultUuid i = None)) rows"

definition secondaryCountAll :: "TransitionDeps \<Rightarrow> string \<Rightarrow> TransitionWorld \<Rightarrow> nat step" where
  "secondaryCountAll d user w =
     attempt d SecondaryCountAll w (length (rowsOfUser user (secondaryItems w))) w"

definition primaryCountAll :: "TransitionDeps \<Rightarrow> string \<Rightarrow> TransitionWorld \<Rightarrow> nat step" where
  "primaryCountAll d user w =
     attempt d PrimaryCountAll w (length (rowsOfUser user (primaryItems w))) w"

definition secondaryFindAll ::
  "TransitionDeps \<Rightarrow> string \<Rightarrow> int \<Rightarrow> int \<Rightarrow> TransitionWorld \<Rightarrow> TransitionItem list step" where
  "secondaryFindAll d user offset limit w =
     attempt d SecondaryFindAll w (pageOfUser user offset limit (secondaryItems w)) w"

definition primaryFindByUuid :: "TransitionDeps \<Rightarrow> string \<Rightarrow> TransitionWorld \<Rightarrow> TransitionItem option step" where
  "primaryFindByUuid d u w = attempt d PrimaryFindByUuid w (rowByUuid u (primaryItems w)) w"

definition primaryRemoveByUuid :: "TransitionDeps \<Rightarrow> string \<Rightarrow> TransitionWorld \<Rightarrow> unit step" where
  "primaryRemoveByUuid d u w =
     attempt d PrimaryRemoveByUuid w () (w\<lparr>primaryItems := withoutUuid u (primaryItems w)\<rparr>)"

definition primarySave :: "TransitionDeps \<Rightarrow> TransitionItem \<Rightarrow> TransitionWorld \<Rightarrow> unit step" where
  "primarySave d i w =
     attempt d PrimarySave w () (w\<lparr>primaryItems := upserted i (primaryItems w)\<rparr>)"

definition secondaryDeleteByUserUuidAndNotInSharedVault ::
  "TransitionDeps \<Rightarrow> string \<Rightarrow> TransitionWorld \<Rightarrow> unit step" where
  "secondaryDeleteByUserUuidAndNotInSharedVault d user w =
     attempt d SecondaryDeleteByUserUuidAndNotInSharedVault w ()
       (w\<lparr>secondaryItems := withoutPrivateRowsOfUser user (secondaryItems w)\<rparr>)"

definition getPagingProgress :: "TransitionDeps \<Rightarrow> string \<Rightarrow> TransitionWorld \<Rightarrow> int step" where
  "getPagingProgress d user w = attempt d GetPagingProgress w (pagingProgress w user) w"

definition setPagingProgress :: "TransitionDeps \<Rightarrow> string \<Rightarrow> int \<Rightarrow> TransitionWorld \<Rightarrow> unit step" where
  "setPagingProgress d user page w =
     attempt d SetPagingProgress w () (w\<lparr>pagingProgress := (pagingProgress w)(user := page)\<rparr>)"

definition getIntegrityProgress :: "TransitionDeps \<Rightarrow> string \<Rightarrow> TransitionWorld \<Rightarrow> int step" where
  "getIntegrityProgress d user w = attempt d GetIntegrityProgress w (integrityProgress w user) w"

definition setIntegrityProgress :: "TransitionDeps \<Rightarrow> string \<Rightarrow> int \<Rightarrow> TransitionWorld \<Rightarrow> unit step" where
  "setIntegrityProgress d user page w =
     attempt d SetIntegrityProgress w () (w\<lparr>integrityProgress := (integrityProgress w)(user := page)\<rparr>)"

text \<open>Lines 268-277.\<close>

definition updateTransitionStatus ::
  "TransitionDeps \<Rightarrow> string \<Rightarrow> TransitionStatus \<Rightarrow> int \<Rightarrow> TransitionWorld \<Rightarrow> unit step" where
  "updateTransitionStatus d user status timestamp w =
     attempt d Publish w ()
       (w\<lparr>publishedEvents := publishedEvents w @ [TransitionStatusUpdated user status ''items'' timestamp]\<rparr>)"

text \<open>Lines 101-104.\<close>

definition allowForPrimaryDatabaseToCatchUp :: "TransitionWorld \<Rightarrow> TransitionWorld" where
  "allowForPrimaryDatabaseToCatchUp w = w\<lparr>sleeps := Suc (sleeps w)\<rparr>"

text \<open>
  Lines 279-289: the user counts as migrated when the secondary repository holds
  no item of the user.
\<close>

definition isAlreadyMigrated :: "TransitionDeps \<Rightarrow> string \<Rightarrow> TransitionWorld \<Rightarrow> bool step" where
  "isAlreadyMigrated d user w =
     (case secondaryCountAll d user w of
        (Inl msg, w1) \<Rightarrow> (Inl msg, w1)
      | (Inr totalItemsCountForUserInSecondary, w1) \<Rightarrow>
          (Inr (totalItemsCountForUserInSecondary = 0),
           if totalItemsCountForUserInSecondary > 0
           then logInfo (LogUserHasItemsInSecondary totalItemsCountForUserInSecondary) w1
           else w1))"

text \<open>
  \<^verbatim>\<open>Math.ceil(count / pageSize)\<close> and the numbers it can give: a division by a
  page size of zero is infinite, or not a number when the count is zero too.
\<close>

datatype PageCount = Pages int | InfinitePages | NotANumber

definition mathCeilOfQuotient :: "nat \<Rightarrow> int \<Rightarrow> PageCount" where
  "mathCeilOfQuotient n k =
     (if k = 0 then (if n = 0 then NotANumber else InfinitePages)
      else Pages (- ((- int n) div k)))"

definition pageWithin :: "int \<Rightarrow> PageCount \<Rightarrow> bool" where
  "pageWithin currentPage totalPages =
     (case totalPages of Pages n \<Rightarrow> currentPage \<le> n | InfinitePages \<Rightarrow> True | NotANumber \<Rightarrow> False)"

text \<open>Line 119: \<^verbatim>\<open>currentPage % Math.ceil(totalPages / 10) === 0\<close>.\<close>

definition isPageInEvery10Percent :: "int \<Rightarrow> PageCount \<Rightarrow> bool" where
  "isPageInEvery10Percent currentPage totalPages =
     (case totalPages of
        Pages n \<Rightarrow> (let m = - ((- n) div 10) in m \<noteq> 0 \<and> currentPage mod m = 0)
      | InfinitePages \<Rightarrow> currentPage = 0
      | NotANumber \<Rightarrow> False)"

text \<open>
  Lines 142-173: one item of a page. Whatever is thrown is caught and logged, and
  the loop goes on with the next item.
\<close>

definition migrateItem :: "TransitionDeps \<Rightarrow> TransitionItem \<Rightarrow> TransitionWorld \<Rightarrow> TransitionWorld" where
  "migrateItem d item w =
     (case primaryFindByUuid d (item_uuid item) w of
        (Inl msg, w1) \<Rightarrow> logInfo (LogErroredWhenSaving (item_uuid item) msg) w1
      | (Inr None, w1) \<Rightarrow>
          (case primarySave d item w1 of
             (Inl msg, w2) \<Rightarrow> logInfo (LogErroredWhenSaving (item_uuid item) msg) w2
           | (Inr u, w2) \<Rightarrow> w2)
      | (Inr (Some itemInPrimary), w1) \<Rightarrow>
          if item_updatedAt itemInPrimary > item_updatedAt item
          then logInfo (LogOlderInSecondary (item_uuid item)) w1
          else if isIdenticalTo d itemInPrimary item then w1
          else (case primaryRemoveByUuid d (item_uuid item) (logInfo (LogRemovingItem (item_uuid item)) w1) of
                  (Inl msg, w2) \<Rightarrow> logInfo (LogErroredWhenSaving (item_uuid item) msg) w2
                | (Inr u, w2) \<Rightarrow>
                    (case primarySave d item (allowForPrimaryDatabaseToCatchUp w2) of
                       (Inl msg, w3) \<Rightarrow> logInfo (LogErroredWhenSaving (item_uuid item) msg) w3
                     | (Inr u', w3) \<Rightarrow> w3)))"

fun migrateItems :: "TransitionDeps \<Rightarrow> TransitionItem list \<Rightarrow> TransitionWorld \<Rightarrow> TransitionWorld" where
  "migrateItems d [] w = w"
| "migrateItems d (item # rest) w = migrateItems d rest (migrateItem d item w)"

text \<open>Lines 119-173: one page of the copy.\<close>

definition migratePage ::
  "TransitionDeps \<Rightarrow> string \<Rightarrow> int \<Rightarrow> PageCount \<Rightarrow> int \<Rightarrow> TransitionWorld \<Rightarrow> unit step" where
  "migratePage d user timestamp totalPages currentPage w =
     (case (if isPageInEvery10Percent currentPage totalPages
            then updateTransitionStatus d user InProgress timestamp
                   (logInfo (LogMigrationProgress currentPage) w)
            else (Inr (), w)) of
        (Inl msg, w1) \<Rightarrow> (Inl msg, w1)
      | (Inr u, w1) \<Rightarrow>
          (case setPagingProgress d user currentPage w1 of
             (Inl msg, w2) \<Rightarrow> (Inl msg, w2)
           | (Inr u', w2) \<Rightarrow>
               (case secondaryFindAll d user ((currentPage - 1) * pageSize d) (pageSize d) w2 of
                  (Inl msg, w3) \<Rightarrow> (Inl msg, w3)
                | (Inr its, w3) \<Rightarrow> (Inr (), migrateItems d its w3))))"

text \<open>
  Line 118: the loop over the pages. It does not end when the page count is
  infinite and nothing throws.
\<close>

partial_function (option) migratePages ::
  "TransitionDeps \<Rightarrow> string \<Rightarrow> int \<Rightarrow> PageCount \<Rightarrow> int \<Rightarrow> TransitionWorld \<Rightarrow> unit step option" where
  "migratePages d user timestamp totalPages currentPage w =
     (if pageWithin currentPage totalPages
      then (case migratePage d user timestamp totalPages currentPage w of
              (Inl msg, w1) \<Rightarrow> Some (Inl msg, w1)
            | (Inr u, w1) \<Rightarrow> migratePages d user timestamp totalPages (currentPage + 1) w1)
      else Some (Inr (), w))"

declare migratePages.simps [code]

text \<open>Lines 106-180: whatever the copy throws becomes a failed result.\<close>

definition migrateItemsForUser ::
  "TransitionDeps \<Rightarrow> string \<Rightarrow> int \<Rightarrow> TransitionWorld \<Rightarrow> (Result \<times> TransitionWorld) option" where
  "migrateItemsForUser d user timestamp w =
     (case getPagingProgress d user w of
        (Inl msg, w1) \<Rightarrow> Some (Fail (Caught msg), w1)
      | (Inr initialPage, w1) \<Rightarrow>
          (case secondaryCountAll d user (logInfo (LogMigratingFromPage initialPage) w1) of
             (Inl msg, w2) \<Rightarrow> Some (Fail (Caught msg), w2)
           | (Inr totalItemsCountForUser, w2) \<Rightarrow>
               (case migratePages d user timestamp
                       (mathCeilOfQuotient totalItemsCountForUser (pageSize d)) initialPage w2 of
                  None \<Rightarrow> None
                | Some (Inl msg, w3) \<Rightarrow> Some (Fail (Caught msg), w3)
                | Some (Inr u, w3) \<Rightarrow> Some (Ok, w3))))"

text \<open>Lines 182-192.\<close>

definition deleteItemsForUser :: "TransitionDeps \<Rightarrow> string \<Rightarrow> TransitionWorld \<Rightarrow> Result \<times> TransitionWorld" where
  "deleteItemsForUser d user w =
     (case secondaryDeleteByUserUuidAndNotInSharedVault d user (logInfo LogCleaningUp w) of
        (Inl msg, w1) \<Rightarrow> (Fail (Caught msg), w1)
      | (Inr u, w1) \<Rightarrow> (Ok, w1))"

text \<open>
  Lines 234-259: the items of one page of the check. The first item that is
  missing or differs ends the check with its problem.
\<close>

fun checkItems :: "TransitionDeps \<Rightarrow> TransitionItem list \<Rightarrow> TransitionWorld \<Rightarrow> Problem option step" where
  "checkItems d [] w = (Inr None, w)"
| "checkItems d (item # rest) w =
     (case primaryFindByUuid d (item_uuid item) w of
        (Inl msg, w1) \<Rightarrow> (Inl msg, w1)
      | (Inr None, w1) \<Rightarrow> (Inr (Some (ItemNotFoundInPrimary (item_uuid item))), w1)
      | (Inr (Some itemInPrimary), w1) \<Rightarrow>
          if item_updatedAt itemInPrimary > item_updatedAt item
          then checkItems d rest (logInfo (LogIntegrityOlderInSecondary (item_uuid item)) w1)
          else if isIdenticalTo d item itemInPrimary then checkItems d rest w1
          else (Inr (Some (ItemNotIdentical item itemInPrimary)), w1))"

definition checkPage :: "TransitionDeps \<Rightarrow> string \<Rightarrow> int \<Rightarrow> TransitionWorld \<Rightarrow> Problem option step" where
  "checkPage d user currentPage w =
     (case setIntegrityProgress d user currentPage w of
        (Inl msg, w1) \<Rightarrow> (Inl msg, w1)
      | (Inr u, w1) \<Rightarrow>
          (case secondaryFindAll d user ((currentPage - 1) * pageSize d) (pageSize d) w1 of
             (Inl msg, w2) \<Rightarrow> (Inl msg, w2)
           | (Inr its, w2) \<Rightarrow> checkItems d its w2))"

partial_function (option) checkPages ::
  "TransitionDeps \<Rightarrow> string \<Rightarrow> PageCount \<Rightarrow> int \<Rightarrow> TransitionWorld \<Rightarrow> Problem option step option" where
  "checkPages d user totalPages currentPage w =
     (if pageWithin currentPage totalPages
      then (case checkPage d user currentPage w of
              (Inl msg, w1) \<Rightarrow> Some (Inl msg, w1)
            | (Inr (Some problem), w1) \<Rightarrow> Some (Inr (Some problem), w1)
            | (Inr None, w1) \<Rightarrow> checkPages d user totalPages (currentPage + 1) w1)
      else Some (Inr None, w))"

declare checkPages.simps [code]

text \<open>Lines 194-266.\<close>

definition checkIntegrityBetweenPrimaryAndSecondaryDatabase ::
  "TransitionDeps \<Rightarrow> string \<Rightarrow> TransitionWorld \<Rightarrow> (Result \<times> TransitionWorld) option" where
  "checkIntegrityBetweenPrimaryAndSecondaryDatabase d user w =
     (case getIntegrityProgress d user w of
        (Inl msg, w1) \<Rightarrow> Some (Fail (Caught msg), w1)
      | (Inr initialPage, w1) \<Rightarrow>
          (case secondaryCountAll d user (logInfo (LogCheckingIntegrityFromPage initialPage) w1) of
             (Inl msg, w2) \<Rightarrow> Some (Fail (Caught msg), w2)
           | (Inr inSecondary, w2) \<Rightarrow>
               (case primaryCountAll d user w2 of
                  (Inl msg, w3) \<Rightarrow> Some (Fail (Caught msg), w3)
                | (Inr inPrimary, w3) \<Rightarrow>
                    if inPrimary < inSecondary
                    then Some (Fail (CountMismatch user inPrimary inSecondary), w3)
                    else (case checkPages d user (mathCeilOfQuotient inPrimary (pageSize d))
                                 initialPage w3 of
                            None \<Rightarrow> None
                          | Some (Inl msg, w4) \<Rightarrow> Some (Fail (Caught msg), w4)
                          | Some (Inr (Some problem), w4) \<Rightarrow> Some (Fail problem, w4)
                          | Some (Inr None, w4) \<Rightarrow> Some (Ok, w4)))))"

text \<open>
  Lines 77-98 of \<^verbatim>\<open>execute\<close>: the clean-up and the final status. A failed
  clean-up publishes \<open>Failed\<close> and logs; the lines that follow it run all the same.
\<close>

definition cleanUpAndFinish ::
  "TransitionDeps \<Rightarrow> string \<Rightarrow> int \<Rightarrow> int \<Rightarrow> TransitionWorld \<Rightarrow> Result step" where
  "cleanUpAndFinish d user timestamp migrationTimeStart w =
     (case deleteItemsForUser d user w of
        (cleanupResult, w1) \<Rightarrow>
          (case (case cleanupResult of
                   Ok \<Rightarrow> (Inr (), w1)
                 | Fail problem \<Rightarrow>
                     (case updateTransitionStatus d user Failed timestamp w1 of
                        (Inl msg, w2) \<Rightarrow> (Inl msg, w2)
                      | (Inr u, w2) \<Rightarrow> (Inr (), logInfo (LogCleanUpFailed problem) w2))) of
             (Inl msg, w3) \<Rightarrow> (Inl msg, w3)
           | (Inr u, w3) \<Rightarrow>
               (let migrationTimeEnd = timerReading d (timerReadings w3);
                    w4 = logInfo (LogTransitionedItems (migrationTimeEnd - migrationTimeStart))
                           (w3\<lparr>timerReadings := Suc (timerReadings w3)\<rparr>)
                in case updateTransitionStatus d user Verified timestamp w4 of
                     (Inl msg, w5) \<Rightarrow> (Inl msg, w5)
                   | (Inr u', w5) \<Rightarrow> (Inr Ok, w5))))"

text \<open>Lines 65-75: the outcome of a failed check.\<close>

definition integrityCheckFailed ::
  "TransitionDeps \<Rightarrow> string \<Rightarrow> int \<Rightarrow> Problem \<Rightarrow> TransitionWorld \<Rightarrow> Result step" where
  "integrityCheckFailed d user timestamp problem w =
     (case setPagingProgress d user 1 w of
        (Inl msg, w1) \<Rightarrow> (Inl msg, w1)
      | (Inr u, w1) \<Rightarrow>
          (case setIntegrityProgress d user 1 w1 of
             (Inl msg, w2) \<Rightarrow> (Inl msg, w2)
           | (Inr u', w2) \<Rightarrow>
               (case updateTransitionStatus d user Failed timestamp w2 of
                  (Inl msg, w3) \<Rightarrow> (Inl msg, w3)
                | (Inr u'', w3) \<Rightarrow> (Inr (Fail problem), w3))))"

text \<open>Lines 50-98: copy, settle, check, clean up.\<close>

definition migrateAndVerify ::
  "TransitionDeps \<Rightarrow> string \<Rightarrow> int \<Rightarrow> TransitionWorld \<Rightarrow> Result step option" where
  "migrateAndVerify d user timestamp w =
     (let migrationTimeStart = timerReading d (timerReadings w);
          w1 = logInfo LogMigratingItems (w\<lparr>timerReadings := Suc (timerReadings w)\<rparr>)
      in case migrateItemsForUser d user timestamp w1 of
           None \<Rightarrow> None
         | Some (Fail problem, w2) \<Rightarrow>
             (case updateTransitionStatus d user Failed timestamp w2 of
                (Inl msg, w3) \<Rightarrow> Some (Inl msg, w3)
              | (Inr u, w3) \<Rightarrow> Some (Inr (Fail problem), w3))
         | Some (Ok, w2) \<Rightarrow>
             (case checkIntegrityBetweenPrimaryAndSecondaryDatabase d user
                     (logInfo LogCheckingIntegrity
                        (allowForPrimaryDatabaseToCatchUp (logInfo LogItemsMigrated w2))) of
                None \<Rightarrow> None
              | Some (Fail problem, w3) \<Rightarrow> Some (integrityCheckFailed d user timestamp problem w3)
              | Some (Ok, w3) \<Rightarrow> Some (cleanUpAndFinish d user timestamp migrationTimeStart w3)))"

text \<open>
  Lines 25-48. The outcome is \<open>None\<close> when the use case does not return,
  \<open>Inl\<close> when it throws and \<open>Inr\<close> with the result it returns.
\<close>

definition execute :: "TransitionDeps \<Rightarrow> TransitionDTO \<Rightarrow> TransitionWorld \<Rightarrow> Result step option" where
  "execute d dto w =
     (let w0 = logInfo LogTransitioningItems w
      in if \<not> secondaryItemRepositoryIsSet d then Some (Inr (Fail SecondaryRepositoryNotSet), w0)
         else if \<not> transitionStatusRepositoryIsSet d then Some (Inr (Fail TransitionStatusRepositoryNotSet), w0)
         else (case uuidCreate d (transition_userUuid dto) of
                 Inl err \<Rightarrow> Some (Inr (Fail (InvalidUuid err)), w0)
               | Inr user \<Rightarrow>
                   (case isAlreadyMigrated d user w0 of
                      (Inl msg, w1) \<Rightarrow> Some (Inl msg, w1)
                    | (Inr True, w1) \<Rightarrow>
                        (case updateTransitionStatus d user Verified (transition_timestamp dto)
                                (logInfo LogUserAlreadyMigrated w1) of
                           (Inl msg, w2) \<Rightarrow> Some (Inl msg, w2)
                         | (Inr u, w2) \<Rightarrow> Some (Inr Ok, w2))
                    | (Inr False, w1) \<Rightarrow> migrateAndVerify d user (transition_timestamp dto) w1)))"

section \<open>Sample transition\<close>

text \<open>
  Collaborators with a page size of 10 under which nothing throws, and the same
  with a clean-up that throws; a uuid is valid when it is not empty, and two
  items are identical when they are equal.
\<close>

definition sampleTransitionDeps :: TransitionDeps where
  "sampleTransitionDeps =
     \<lparr> secondaryItemRepositoryIsSet = True, transitionStatusRepositoryIsSet = True, pageSize = 10,
       uuidCreate = (\<lambda>s. if s = [] then Inl ''Given value is not a valid uuid'' else Inr s),
       isIdenticalTo = (\<lambda>a b. a = b),
       timerReading = (\<lambda>n. 1000 * int n),
       throws = (\<lambda>operation w. None) \<rparr>"

definition failingCleanUpDeps :: TransitionDeps where
  "failingCleanUpDeps =
     sampleTransitionDeps\<lparr> throws := (\<lambda>operation w.
        if operation = SecondaryDeleteByUserUuidAndNotInSharedVault then Some ''lock wait timeout''
        else None) \<rparr>"

definition sampleTransitionItem :: "string \<Rightarrow> int \<Rightarrow> string \<Rightarrow> TransitionItem" where
  "sampleTransitionItem u t props =
     \<lparr> item_uuid = u, item_userUuid = ''alice'', item_sharedVaultUuid = None, item_createdAt = 1,
       item_updatedAt = t, item_props = props \<rparr>"

definition sampleTransitionWorld :: "TransitionItem list \<Rightarrow> TransitionItem list \<Rightarrow> TransitionWorld" where
  "sampleTransitionWorld primary secondary =
     \<lparr> primaryItems = primary, secondaryItems = secondary, pagingProgress = (\<lambda>u. 1),
       integrityProgress = (\<lambda>u. 1), publishedEvents = [], logged = [], sleeps = 0,
       timerReadings = 0 \<rparr>"

definition sampleTransition :: TransitionDTO where
  "sampleTransition = \<lparr> transition_userUuid = ''alice'', transition_timestamp = 42 \<rparr>"


definition newerItem :: TransitionItem where
  "newerItem = sampleTransitionItem ''A'' 2 ''new''"

definition statusOf :: "TransitionEvent \<Rightarrow> TransitionStatus" where
  "statusOf e = (case e of TransitionStatusUpdated user status kind timestamp \<Rightarrow> status)"

section \<open>The limit formula of the specification\<close>

text \<open>
  The effective limit as the specification words it: the larger of the request's
  limit and 1, capped by the maximum, with 150 for a request without a limit.
\<close>

definition specEffectiveLimit :: "int \<Rightarrow> int option \<Rightarrow> int" where
  "specEffectiveLimit maxLimit l =
     min (max (case l of None \<Rightarrow> DEFAULT_ITEMS_LIMIT | Some n \<Rightarrow> n) 1) maxLimit"

text \<open>
  The sync token of a save as the specification words it: one microsecond past
  the larger of the request's start and the newest saved item.
\<close>

definition specSyncToken :: "int \<Rightarrow> Item list \<Rightarrow> Token" where
  "specSyncToken start saved =
     TokenV2 ((if saved = [] then start else max start (Max (updatedAtTimestamp ` set saved))) + 1)"


text \<open>Collaborators whose maximum limit is 0.\<close>

definition zeroLimitDeps :: ItemServiceDeps where
  "zeroLimitDeps = sampleDeps\<lparr>maxItemsSyncLimit := 0\<rparr>"





section \<open>Properties of getItems\<close>

text \<open>
  C9, as stated, fails: a request with limit 0 is queried with the default limit
  150 (capped by the maximum 300), where the formula of the specification gives 1.
\<close>

theorem effective_limit_counterexample:
  "q_limit (buildItemQuery sampleDeps (sampleRequest (Some 0)) (Some 5)) = Some 150 \<and>
   specEffectiveLimit (maxItemsSyncLimit sampleDeps) (dto_limit (sampleRequest (Some 0))) = 1"
  by (simp add: buildItemQuery_def upperBoundLimit_def requestLimit_def DEFAULT_ITEMS_LIMIT_def
      sampleDeps_def sampleRequest_def specEffectiveLimit_def)

text \<open>
  C9, amended: the limit of the item query is the smaller of the maximum and the
  request's limit, where a request without a limit or with a limit below 1 counts
  as 150.
\<close>

theorem effective_limit:
  "q_limit (buildItemQuery d dto t) =
     Some (min (case dto_limit dto of
                  None \<Rightarrow> 150
                | Some n \<Rightarrow> if n < 1 then 150 else n)
               (maxItemsSyncLimit d))"
  by (simp add: buildItemQuery_def upperBoundLimit_def requestLimit_def DEFAULT_ITEMS_LIMIT_def
      Let_def min_def split: option.splits)

text \<open>The body of \<^verbatim>\<open>getItems\<close> after the token is decoded.\<close>

lemma getItems_cases:
  "getItems d dto =
     (case getLastSyncTime (convertStringDateToMicroseconds d) (dto_syncToken dto) (dto_cursorToken dto) of
        Inl e \<Rightarrow> Inl e
      | Inr t \<Rightarrow>
          (let us = computeItemUuidsToFetch d (buildItemQuery d dto t) (contentSizeTransferLimit d);
               its = (if us \<noteq> [] then findAll d (uuidsQuery us) else [])
           in if countAll d (buildItemQuery d dto t) > upperBoundLimit (maxItemsSyncLimit d) (dto_limit dto)
              then (if its = [] then Inl TypeError
                    else Inr \<lparr>items = its, cursorToken = Some (TokenV2 (updatedAtTimestamp (last its)))\<rparr>)
              else Inr \<lparr>items = its, cursorToken = None\<rparr>))"
  by (simp add: getItems_def Let_def split: sum.splits list.splits)

text \<open>
  C3, amended: a call of \<^verbatim>\<open>getItems\<close> that returns emits a cursor token exactly
  when the count of matching items exceeds the effective limit; the token then
  carries the timestamp of the last returned item, with nothing added, and the
  returned list is not empty.
\<close>

theorem cursor_token_emitted:
  assumes "getItems d dto = Inr r"
  shows "\<exists>t. getLastSyncTime (convertStringDateToMicroseconds d) (dto_syncToken dto) (dto_cursorToken dto) = Inr t \<and>
           (if countAll d (buildItemQuery d dto t) > upperBoundLimit (maxItemsSyncLimit d) (dto_limit dto)
            then items r \<noteq> [] \<and> cursorToken r = Some (TokenV2 (updatedAtTimestamp (last (items r))))
            else cursorToken r = None)"
proof (cases "getLastSyncTime (convertStringDateToMicroseconds d) (dto_syncToken dto) (dto_cursorToken dto)")
  case (Inl e)
  then show ?thesis using assms by (simp add: getItems_cases)
next
  case (Inr t)
  then show ?thesis using assms
    by (auto simp: getItems_cases Let_def split: if_splits)
qed

subsection \<open>The collaborators of the specification\<close>

lemma withSpecRepository_simps:
  "maxItemsSyncLimit (withSpecRepository v rows d) = maxItemsSyncLimit d"
  "contentSizeTransferLimit (withSpecRepository v rows d) = contentSizeTransferLimit d"
  "convertStringDateToMicroseconds (withSpecRepository v rows d) = convertStringDateToMicroseconds d"
  "findAllForUser (withSpecRepository v rows d) = findAllForUser d"
  "computeItemUuidsToFetch (withSpecRepository v rows d) = specComputeItemUuidsToFetch v rows"
  "findAll (withSpecRepository v rows d) = specFindAll v rows"
  "countAll (withSpecRepository v rows d) = specCountAll v rows"
  by (simp_all add: withSpecRepository_def)

lemma buildItemQuery_withSpecRepository:
  "buildItemQuery (withSpecRepository v rows d) dto t = buildItemQuery d dto t"
  by (simp add: buildItemQuery_def withSpecRepository_simps)

lemma q_limit_buildItemQuery:
  "q_limit (buildItemQuery d dto t) = Some (upperBoundLimit (maxItemsSyncLimit d) (dto_limit dto))"
  by (simp add: buildItemQuery_def Let_def)

lemma upperBoundLimit_pos: "0 < m \<Longrightarrow> 1 \<le> upperBoundLimit m l"
  by (simp add: upperBoundLimit_def requestLimit_def DEFAULT_ITEMS_LIMIT_def Let_def split: option.splits)

lemma matchesQuery_uuidsQuery: "matchesQuery v (uuidsQuery us) i \<longleftrightarrow> uuid i \<in> set us"
  by (simp add: matchesQuery_def uuidsQuery_def)

lemma specFindAll_uuidsQuery_nonempty:
  assumes "i \<in> set rows" and "uuid i \<in> set us"
  shows "specFindAll v rows (uuidsQuery us) \<noteq> []"
proof -
  have "i \<in> set (filter (matchesQuery v (uuidsQuery us)) rows)"
    using assms by (simp add: matchesQuery_uuidsQuery)
  then have "filter (matchesQuery v (uuidsQuery us)) rows \<noteq> []"
    by (metis empty_iff empty_set)
  then have "sort_key (\<lambda>i. (updatedAtTimestamp i, uuid i)) (filter (matchesQuery v (uuidsQuery us)) rows) \<noteq> []"
    by (metis length_sort length_0_conv)
  then show ?thesis
    by (simp add: specFindAll_def limited_def uuidsQuery_def)
qed

lemma set_specFindAll: "set (specFindAll v rows q) \<subseteq> set rows"
proof -
  have "set (specFindAll v rows q)
          \<subseteq> set (sort_key (\<lambda>i. (updatedAtTimestamp i, uuid i)) (filter (matchesQuery v q) rows))"
    by (auto simp: specFindAll_def limited_def split: option.splits dest: in_set_takeD)
  then show ?thesis by auto
qed

lemma specFindAll_nonempty:
  assumes "q_limit q = Some l" and "1 \<le> l" and "specCountAll v rows q > l"
  shows "specFindAll v rows q \<noteq> []"
proof -
  let ?s = "sort_key (\<lambda>i. (updatedAtTimestamp i, uuid i)) (filter (matchesQuery v q) rows)"
  have "int (length ?s) > l" using assms(3) by (simp add: specCountAll_def)
  with assms(2) have "0 < length ?s" by linarith
  moreover have "0 < nat l" using assms(2) by simp
  ultimately have "take (nat l) ?s \<noteq> []" by (cases ?s; cases "nat l") auto
  then show ?thesis using assms(1) by (simp add: specFindAll_def limited_def)
qed

lemma specComputeItemUuidsToFetch_head:
  assumes "specFindAll v rows q = i # rest"
  shows "\<exists>us. specComputeItemUuidsToFetch v rows q b = uuid i # us"
  using assms by (simp add: specComputeItemUuidsToFetch_def)

lemma getLastSyncTime_not_TypeError: "getLastSyncTime conv s c \<noteq> Inl TypeError"
  by (simp add: getLastSyncTime_def split: option.splits Token.splits)

lemma spec_hydrated_nonempty:
  assumes "q_limit q = Some l" and "1 \<le> l" and "specCountAll v rows q > l"
  shows "specComputeItemUuidsToFetch v rows q b \<noteq> [] \<and>
         specFindAll v rows (uuidsQuery (specComputeItemUuidsToFetch v rows q b)) \<noteq> []"
proof -
  obtain i rest where ir: "specFindAll v rows q = i # rest"
    using specFindAll_nonempty [OF assms] by (cases "specFindAll v rows q") auto
  then have "i \<in> set rows" using set_specFindAll [of v rows q] by auto
  moreover obtain us where us: "specComputeItemUuidsToFetch v rows q b = uuid i # us"
    using specComputeItemUuidsToFetch_head [OF ir] by blast
  ultimately show ?thesis
    using specFindAll_uuidsQuery_nonempty [of i rows "uuid i # us" v] by simp
qed

text \<open>
  C10, amended: when the repository and the transfer calculator are those of the
  specification, answering from one unchanging list of rows, and the maximum
  limit is at least 1, \<^verbatim>\<open>getItems\<close> never reads the last element of an empty
  list; whenever the count of matching items exceeds the effective limit, the
  calculator returns a uuid and the hydrated list is not empty.
\<close>

theorem last_item_read_in_bounds:
  assumes "0 < maxItemsSyncLimit d"
  shows "getItems (withSpecRepository visible rows d) dto \<noteq> Inl TypeError \<and>
         (\<forall>t. getLastSyncTime (convertStringDateToMicroseconds d) (dto_syncToken dto) (dto_cursorToken dto) = Inr t \<and>
               countAll (withSpecRepository visible rows d) (buildItemQuery (withSpecRepository visible rows d) dto t)
                 > upperBoundLimit (maxItemsSyncLimit d) (dto_limit dto)
            \<longrightarrow> computeItemUuidsToFetch (withSpecRepository visible rows d)
                   (buildItemQuery (withSpecRepository visible rows d) dto t)
                   (contentSizeTransferLimit d) \<noteq> [] \<and>
                (\<exists>r. getItems (withSpecRepository visible rows d) dto = Inr r \<and> items r \<noteq> []))"
proof -
  let ?D = "withSpecRepository visible rows d"
  let ?L = "upperBoundLimit (maxItemsSyncLimit d) (dto_limit dto)"
  have L: "1 \<le> ?L" using assms by (rule upperBoundLimit_pos)
  have key: "specComputeItemUuidsToFetch visible rows (buildItemQuery d dto t) b \<noteq> [] \<and>
             specFindAll visible rows (uuidsQuery (specComputeItemUuidsToFetch visible rows (buildItemQuery d dto t) b)) \<noteq> []"
    if "specCountAll visible rows (buildItemQuery d dto t) > ?L" for t b
    using spec_hydrated_nonempty [OF q_limit_buildItemQuery L that] .
  have 1: "getItems ?D dto \<noteq> Inl TypeError"
  proof (cases "getLastSyncTime (convertStringDateToMicroseconds d) (dto_syncToken dto) (dto_cursorToken dto)")
    case (Inl e)
    then show ?thesis
      using getLastSyncTime_not_TypeError [of "convertStringDateToMicroseconds d" "dto_syncToken dto" "dto_cursorToken dto"]
      by (simp add: getItems_cases withSpecRepository_simps)
  next
    case (Inr t)
    then show ?thesis
      using key [of t "contentSizeTransferLimit d"]
      by (simp add: getItems_cases Let_def withSpecRepository_simps buildItemQuery_withSpecRepository)
  qed
  have 2: "computeItemUuidsToFetch ?D (buildItemQuery ?D dto t) (contentSizeTransferLimit d) \<noteq> [] \<and>
           (\<exists>r. getItems ?D dto = Inr r \<and> items r \<noteq> [])"
    if t: "getLastSyncTime (convertStringDateToMicroseconds d) (dto_syncToken dto) (dto_cursorToken dto) = Inr t"
      and c: "countAll ?D (buildItemQuery ?D dto t) > ?L" for t
  proof -
    have "specCountAll visible rows (buildItemQuery d dto t) > ?L"
      using c by (simp add: withSpecRepository_simps buildItemQuery_withSpecRepository)
    from key [OF this, of "contentSizeTransferLimit d"] show ?thesis
      using t by (simp add: getItems_cases Let_def withSpecRepository_simps buildItemQuery_withSpecRepository)
  qed
  show ?thesis using 1 2 by blast
qed

subsection \<open>The sample request\<close>

lemmas sample_defs = sampleDeps_def sampleRows_def sampleItem_def sampleRequest_def ownRows_def
  sampleHash_def sampleWorld_def sampleSave_def

lemma sample_query_getLast:
  "getLastSyncTime (convertStringDateToMicroseconds sampleDeps) (dto_syncToken (sampleRequest l))
     (dto_cursorToken (sampleRequest l)) = Inr (Some 5)"
  by (simp add: getLastSyncTime_def sampleRequest_def)

lemma sample_rows_found:
  "specFindAll ownRows sampleRows (buildItemQuery sampleDeps (sampleRequest l) (Some 5)) =
     limited (Some (upperBoundLimit 300 l)) sampleRows"
  by (simp add: specFindAll_def buildItemQuery_def matchesQuery_def sample_defs Let_def)

lemma sample_rows_counted:
  "specCountAll ownRows sampleRows (buildItemQuery sampleDeps (sampleRequest l) (Some 5)) = 3"
  by (simp add: specCountAll_def buildItemQuery_def matchesQuery_def sample_defs Let_def)

lemma sample_uuids:
  "specComputeItemUuidsToFetch ownRows sampleRows (buildItemQuery sampleDeps (sampleRequest None) (Some 5)) 100 = [''A'']"
  by (simp add: specComputeItemUuidsToFetch_def sample_rows_found limited_def upperBoundLimit_def
      requestLimit_def DEFAULT_ITEMS_LIMIT_def)
     (simp add: sampleRows_def sampleItem_def)

lemma sample_uuids2:
  "specComputeItemUuidsToFetch ownRows sampleRows (buildItemQuery sampleDeps (sampleRequest (Some 2)) (Some 5)) 100 = [''A'']"
  by (simp add: specComputeItemUuidsToFetch_def sample_rows_found limited_def upperBoundLimit_def
      requestLimit_def DEFAULT_ITEMS_LIMIT_def)
     (simp add: sampleRows_def sampleItem_def)

lemma sample_hydrated:
  "specFindAll ownRows sampleRows (uuidsQuery [''A'']) = [sampleItem ''A'' 60 10]"
  by (simp add: specFindAll_def matchesQuery_def uuidsQuery_def limited_def sampleRows_def sampleItem_def)

lemma sample_limits:
  "upperBoundLimit (maxItemsSyncLimit sampleDeps) (dto_limit (sampleRequest None)) = 150"
  "upperBoundLimit (maxItemsSyncLimit sampleDeps) (dto_limit (sampleRequest (Some 2))) = 2"
  "upperBoundLimit 300 (dto_limit (sampleRequest None)) = 150"
  "upperBoundLimit 300 (dto_limit (sampleRequest (Some 2))) = 2"
  "contentSizeTransferLimit sampleDeps = 100"
  "maxItemsSyncLimit sampleDeps = 300"
  by (simp_all add: sampleDeps_def sampleRequest_def upperBoundLimit_def requestLimit_def
      DEFAULT_ITEMS_LIMIT_def)

lemma sample_page:
  "getItems (withSpecRepository ownRows sampleRows sampleDeps) (sampleRequest None) =
     Inr \<lparr>items = [sampleItem ''A'' 60 10], cursorToken = None\<rparr>"
  by (simp add: getItems_cases sample_query_getLast withSpecRepository_simps
      buildItemQuery_withSpecRepository sample_limits sample_uuids sample_hydrated
      sample_rows_counted Let_def)

lemma sample_page_limit_2:
  "getItems (withSpecRepository ownRows sampleRows sampleDeps) (sampleRequest (Some 2)) =
     Inr \<lparr>items = [sampleItem ''A'' 60 10], cursorToken = Some (TokenV2 10)\<rparr>"
  by (simp add: getItems_cases sample_query_getLast withSpecRepository_simps
      buildItemQuery_withSpecRepository sample_limits sample_uuids2 sample_hydrated
      sample_rows_counted Let_def)
     (simp add: sampleItem_def)

text \<open>
  C3, as stated, fails: three items match, the budget of 100 bytes lets only the
  first through, the limit is 150, and no cursor token is emitted although the
  transfer budget cut the response.
\<close>

theorem cursor_token_counterexample:
  "getItems (withSpecRepository ownRows sampleRows sampleDeps) (sampleRequest None) =
     Inr \<lparr>items = [sampleItem ''A'' 60 10], cursorToken = None\<rparr> \<and>
   countAll (withSpecRepository ownRows sampleRows sampleDeps)
     (buildItemQuery (withSpecRepository ownRows sampleRows sampleDeps) (sampleRequest None) (Some 5)) = 3 \<and>
   computeItemUuidsToFetch (withSpecRepository ownRows sampleRows sampleDeps)
     (buildItemQuery (withSpecRepository ownRows sampleRows sampleDeps) (sampleRequest None) (Some 5))
     (contentSizeTransferLimit (withSpecRepository ownRows sampleRows sampleDeps)) = [''A'']"
  by (simp add: sample_page withSpecRepository_simps buildItemQuery_withSpecRepository
      sample_rows_counted sample_limits sample_uuids)

text \<open>
  C3, witness: with limit 2 the same three items exceed the limit and the cursor
  token carries the timestamp 10 of the one returned item.
\<close>

theorem cursor_token_emitted_witness:
  "getItems (withSpecRepository ownRows sampleRows sampleDeps) (sampleRequest (Some 2)) =
     Inr \<lparr>items = [sampleItem ''A'' 60 10], cursorToken = Some (TokenV2 10)\<rparr> \<and>
   (\<exists>t. getLastSyncTime (convertStringDateToMicroseconds (withSpecRepository ownRows sampleRows sampleDeps))
           (dto_syncToken (sampleRequest (Some 2))) (dto_cursorToken (sampleRequest (Some 2))) = Inr t \<and>
        countAll (withSpecRepository ownRows sampleRows sampleDeps)
          (buildItemQuery (withSpecRepository ownRows sampleRows sampleDeps) (sampleRequest (Some 2)) t) > 2)"
proof -
  let ?D = "withSpecRepository ownRows sampleRows sampleDeps"
  have h: "getItems ?D (sampleRequest (Some 2)) =
             Inr \<lparr>items = [sampleItem ''A'' 60 10], cursorToken = Some (TokenV2 10)\<rparr>"
    by (rule sample_page_limit_2)
  from cursor_token_emitted [OF h] obtain t where
    t: "getLastSyncTime (convertStringDateToMicroseconds ?D) (dto_syncToken (sampleRequest (Some 2)))
          (dto_cursorToken (sampleRequest (Some 2))) = Inr t"
    and c: "if countAll ?D (buildItemQuery ?D (sampleRequest (Some 2)) t)
                 > upperBoundLimit (maxItemsSyncLimit ?D) (dto_limit (sampleRequest (Some 2)))
            then items \<lparr>items = [sampleItem ''A'' 60 10], cursorToken = Some (TokenV2 10)\<rparr> \<noteq> [] \<and>
                 cursorToken \<lparr>items = [sampleItem ''A'' 60 10], cursorToken = Some (TokenV2 10)\<rparr> =
                   Some (TokenV2 (updatedAtTimestamp (last (items \<lparr>items = [sampleItem ''A'' 60 10], cursorToken = Some (TokenV2 10)\<rparr>))))
            else cursorToken \<lparr>items = [sampleItem ''A'' 60 10], cursorToken = Some (TokenV2 10)\<rparr> = None"
    by blast
  have "countAll ?D (buildItemQuery ?D (sampleRequest (Some 2)) t) > 2"
    using c by (simp add: withSpecRepository_simps sample_limits split: if_splits)
  with h t show ?thesis by blast
qed

text \<open>
  C10, witness: the sample request with limit 2 over the three sample rows.
\<close>

theorem last_item_read_in_bounds_witness:
  "0 < maxItemsSyncLimit sampleDeps \<and>
   getItems (withSpecRepository ownRows sampleRows sampleDeps) (sampleRequest (Some 2)) \<noteq> Inl TypeError \<and>
   computeItemUuidsToFetch (withSpecRepository ownRows sampleRows sampleDeps)
     (buildItemQuery (withSpecRepository ownRows sampleRows sampleDeps) (sampleRequest (Some 2)) (Some 5))
     (contentSizeTransferLimit sampleDeps) \<noteq> [] \<and>
   (\<exists>r. getItems (withSpecRepository ownRows sampleRows sampleDeps) (sampleRequest (Some 2)) = Inr r \<and>
        items r \<noteq> [])"
proof -
  let ?D = "withSpecRepository ownRows sampleRows sampleDeps"
  have m: "0 < maxItemsSyncLimit sampleDeps" by (simp add: sample_limits)
  have c: "countAll ?D (buildItemQuery ?D (sampleRequest (Some 2)) (Some 5))
             > upperBoundLimit (maxItemsSyncLimit sampleDeps) (dto_limit (sampleRequest (Some 2)))"
    by (simp add: withSpecRepository_simps buildItemQuery_withSpecRepository sample_rows_counted sample_limits)
  from last_item_read_in_bounds [OF m, of ownRows sampleRows "sampleRequest (Some 2)"]
    sample_query_getLast [of "Some 2"] c m
  show ?thesis by blast
qed

text \<open>
  C10, as stated, fails: with a maximum limit of 0 the effective limit is 0, the
  three matching rows exceed it, the query with limit 0 finds nothing, the
  calculator returns no uuid, and \<^verbatim>\<open>getItems\<close> reads the last element of an
  empty list.
\<close>

theorem last_item_read_counterexample:
  "maxItemsSyncLimit zeroLimitDeps = 0 \<and>
   upperBoundLimit (maxItemsSyncLimit (withSpecRepository ownRows sampleRows zeroLimitDeps))
     (dto_limit (sampleRequest None)) = 0 \<and>
   countAll (withSpecRepository ownRows sampleRows zeroLimitDeps)
     (buildItemQuery (withSpecRepository ownRows sampleRows zeroLimitDeps) (sampleRequest None) (Some 5)) = 3 \<and>
   computeItemUuidsToFetch (withSpecRepository ownRows sampleRows zeroLimitDeps)
     (buildItemQuery (withSpecRepository ownRows sampleRows zeroLimitDeps) (sampleRequest None) (Some 5))
     (contentSizeTransferLimit (withSpecRepository ownRows sampleRows zeroLimitDeps)) = [] \<and>
   getItems (withSpecRepository ownRows sampleRows zeroLimitDeps) (sampleRequest None) = Inl TypeError"
proof -
  let ?D = "withSpecRepository ownRows sampleRows zeroLimitDeps"
  have m: "maxItemsSyncLimit zeroLimitDeps = 0" "contentSizeTransferLimit zeroLimitDeps = 100"
    "convertStringDateToMicroseconds zeroLimitDeps = convertStringDateToMicroseconds sampleDeps"
    by (simp_all add: zeroLimitDeps_def sampleDeps_def)
  have l: "upperBoundLimit 0 (dto_limit (sampleRequest None)) = 0"
    by (simp add: upperBoundLimit_def requestLimit_def DEFAULT_ITEMS_LIMIT_def sampleRequest_def)
  have q: "q_limit (buildItemQuery zeroLimitDeps (sampleRequest None) (Some 5)) = Some 0"
    by (simp add: q_limit_buildItemQuery m l)
  have c: "specCountAll ownRows sampleRows (buildItemQuery zeroLimitDeps (sampleRequest None) (Some 5)) = 3"
    by (simp add: specCountAll_def buildItemQuery_def matchesQuery_def sample_defs zeroLimitDeps_def Let_def)
  have f: "specFindAll ownRows sampleRows (buildItemQuery zeroLimitDeps (sampleRequest None) (Some 5)) = []"
    by (simp add: specFindAll_def q limited_def)
  have u: "specComputeItemUuidsToFetch ownRows sampleRows
             (buildItemQuery zeroLimitDeps (sampleRequest None) (Some 5)) 100 = []"
    by (simp add: specComputeItemUuidsToFetch_def f)
  have g: "getLastSyncTime (convertStringDateToMicroseconds sampleDeps) (dto_syncToken (sampleRequest None))
             (dto_cursorToken (sampleRequest None)) = Inr (Some 5)"
    by (rule sample_query_getLast)
  show ?thesis
    by (simp add: getItems_cases withSpecRepository_simps buildItemQuery_withSpecRepository
        m l c u g Let_def)
qed

section \<open>Properties of saveItems\<close>

subsection \<open>The sort of calculateSyncToken\<close>

lemma set_insertByComparator: "set (insertByComparator cmp x ys) = insert x (set ys)"
  by (induction ys) auto

lemma set_insertAll: "set (insertAll cmp sortedPart xs) = set sortedPart \<union> set xs"
  by (induction xs arbitrary: sortedPart) (auto simp: set_insertByComparator)

lemma set_arraySort: "set (arraySort cmp xs) = set xs"
  by (simp add: arraySort_def set_insertAll)

lemma arraySort_Nil_iff: "arraySort cmp xs = [] \<longleftrightarrow> xs = []"
  using set_arraySort [of cmp xs] by (metis set_empty)

lemma sorted_insertByComparator:
  "sorted (map updatedAtTimestamp ys) \<Longrightarrow>
   sorted (map updatedAtTimestamp (insertByComparator compareUpdatedAt x ys))"
  by (induction ys) (auto simp: compareUpdatedAt_def set_insertByComparator)

lemma sorted_insertAll:
  "sorted (map updatedAtTimestamp sortedPart) \<Longrightarrow>
   sorted (map updatedAtTimestamp (insertAll compareUpdatedAt sortedPart xs))"
  by (induction xs arbitrary: sortedPart) (auto simp: sorted_insertByComparator)

lemma sorted_arraySort: "sorted (map updatedAtTimestamp (arraySort compareUpdatedAt xs))"
  by (simp add: arraySort_def sorted_insertAll)

lemma last_sorted_Max:
  fixes ks :: "int list"
  assumes "sorted ks" and "ks \<noteq> []"
  shows "last ks = Max (set ks)"
proof -
  have "\<forall>k \<in> set ks. k \<le> last ks"
    using assms by (induction ks) (auto split: if_splits)
  moreover have "last ks \<in> set ks" using assms(2) by simp
  ultimately have "Max (set ks) = last ks"
    by (intro Max_eqI) auto
  then show ?thesis by simp
qed

lemma last_arraySort:
  assumes "xs \<noteq> []"
  shows "updatedAtTimestamp (last (arraySort compareUpdatedAt xs)) = Max (updatedAtTimestamp ` set xs)"
proof -
  let ?s = "arraySort compareUpdatedAt xs"
  have ne: "?s \<noteq> []" using assms by (simp add: arraySort_Nil_iff)
  have "last (map updatedAtTimestamp ?s) = Max (set (map updatedAtTimestamp ?s))"
    using ne by (intro last_sorted_Max sorted_arraySort) simp
  then show ?thesis using ne by (simp add: last_map set_arraySort)
qed

lemma calculateSyncToken_value:
  "calculateSyncToken t saved =
     (TokenV2 ((if saved = [] then t else Max (updatedAtTimestamp ` set saved)) + 1),
      arraySort compareUpdatedAt saved)"
proof (cases "saved = []")
  case True
  then show ?thesis by (simp add: calculateSyncToken_def arraySort_def)
next
  case False
  then show ?thesis by (simp add: calculateSyncToken_def Let_def last_arraySort)
qed

text \<open>
  C2, amended: the sync token of a save that returns is the version 2 encoding
  of one microsecond past the newest \<open>updated_at_timestamp\<close> among the saved
  items, and of one microsecond past the timestamp read when the call began if
  no item was saved.
\<close>

theorem sync_token_value:
  assumes "saveItems d dto w = Inr (r, w')"
  shows "syncToken r =
           TokenV2 ((if savedItems r = []
                     then getTimestampInMicroseconds d (clockReadings w)
                     else Max (updatedAtTimestamp ` set (savedItems r))) + 1)"
  using assms
  by (auto simp: saveItems_def Let_def calculateSyncToken_value set_arraySort arraySort_Nil_iff
      split: sum.splits prod.splits)

subsection \<open>The update of an existing item\<close>

lemma updateExistingItem_saved:
  assumes "updateExistingItem d e h user session w = Inr (saved, w')"
  shows "saved = entityToSave d e h user session (getTimestampInMicroseconds d (clockReadings w))"
    and "itemStore w' (uuid saved) = Some saved"
  using assms
  by (auto simp: updateExistingItem_def repositorySave_def afterUpdate_def publish_def Let_def
      split: option.splits SaveOperation.splits if_splits)



lemma copyHashFields_frame:
  "uuid (copyHashFields e h user session) = uuid e"
  "userUuid (copyHashFields e h user session) = userUuid e"
  "createdAtTimestamp (copyHashFields e h user session) = createdAtTimestamp e"
  "createdAt (copyHashFields e h user session) = createdAt e"
  "\<not> truthy (hash_content h) \<Longrightarrow> content (copyHashFields e h user session) = content e"
  "\<not> truthyType (hash_content_type h) \<Longrightarrow> contentType (copyHashFields e h user session) = contentType e"
  "hash_deleted h = None \<Longrightarrow> deleted (copyHashFields e h user session) = deleted e"
  "\<not> truthy (hash_duplicate_of h) \<Longrightarrow> duplicateOf (copyHashFields e h user session) = duplicateOf e"
  "\<not> truthy (hash_auth_hash h) \<Longrightarrow> authHash (copyHashFields e h user session) = authHash e"
  "\<not> truthy (hash_enc_item_key h) \<Longrightarrow> encItemKey (copyHashFields e h user session) = encItemKey e"
  "\<not> truthy (hash_items_key_id h) \<Longrightarrow> itemsKeyId (copyHashFields e h user session) = itemsKeyId e"
  "sharedVaultUuid (copyHashFields e h user session) = hash_shared_vault_uuid h"
  "keySystemIdentifier (copyHashFields e h user session) = hash_key_system_identifier h"
  by (simp_all add: copyHashFields_def Let_def split: option.splits)

lemma copyCreatedAt_frame:
  "uuid (copyCreatedAt d h i) = uuid i"
  "userUuid (copyCreatedAt d h i) = userUuid i"
  "content (copyCreatedAt d h i) = content i"
  "contentType (copyCreatedAt d h i) = contentType i"
  "deleted (copyCreatedAt d h i) = deleted i"
  "duplicateOf (copyCreatedAt d h i) = duplicateOf i"
  "authHash (copyCreatedAt d h i) = authHash i"
  "encItemKey (copyCreatedAt d h i) = encItemKey i"
  "itemsKeyId (copyCreatedAt d h i) = itemsKeyId i"
  "sharedVaultUuid (copyCreatedAt d h i) = sharedVaultUuid i"
  "keySystemIdentifier (copyCreatedAt d h i) = keySystemIdentifier i"
  "\<not> truthyNumber (hash_created_at_timestamp h) \<Longrightarrow> \<not> truthy (hash_created_at h) \<Longrightarrow>
     createdAtTimestamp (copyCreatedAt d h i) = createdAtTimestamp i \<and> createdAt (copyCreatedAt d h i) = createdAt i"
  by (simp_all add: copyCreatedAt_def split: option.splits)

lemma clearIfDeleted_frame:
  "uuid (clearIfDeleted h i) = uuid i"
  "userUuid (clearIfDeleted h i) = userUuid i"
  "contentType (clearIfDeleted h i) = contentType i"
  "duplicateOf (clearIfDeleted h i) = duplicateOf i"
  "createdAtTimestamp (clearIfDeleted h i) = createdAtTimestamp i"
  "createdAt (clearIfDeleted h i) = createdAt i"
  "sharedVaultUuid (clearIfDeleted h i) = sharedVaultUuid i"
  "keySystemIdentifier (clearIfDeleted h i) = keySystemIdentifier i"
  "hash_deleted h \<noteq> Some True \<Longrightarrow> clearIfDeleted h i = i"
  "hash_deleted h = None \<Longrightarrow> deleted (clearIfDeleted h i) = deleted i"
  by (simp_all add: clearIfDeleted_def)

text \<open>
  C1, amended: an update keeps the uuid and the owner; it keeps the content
  type, the deleted flag, the duplicate-of reference and the creation time when
  the hash leaves them out, and the content, the auth hash, the item key and the
  items key id when the hash leaves them out and does not delete the item. The
  shared vault uuid and the key system identifier are always those of the hash,
  absent when the hash leaves them out. The result is the row stored under the
  uuid.
\<close>

theorem absent_fields_kept:
  assumes "updateExistingItem d e h user session w = Inr (saved, w')"
  shows "uuid saved = uuid e \<and> userUuid saved = userUuid e \<and>
         (\<not> truthyType (hash_content_type h) \<longrightarrow> contentType saved = contentType e) \<and>
         (hash_deleted h = None \<longrightarrow> deleted saved = deleted e) \<and>
         (\<not> truthy (hash_duplicate_of h) \<longrightarrow> duplicateOf saved = duplicateOf e) \<and>
         (\<not> truthyNumber (hash_created_at_timestamp h) \<and> \<not> truthy (hash_created_at h) \<longrightarrow>
            createdAtTimestamp saved = createdAtTimestamp e \<and> createdAt saved = createdAt e) \<and>
         (hash_deleted h \<noteq> Some True \<longrightarrow>
            (\<not> truthy (hash_content h) \<longrightarrow> content saved = content e) \<and>
            (\<not> truthy (hash_auth_hash h) \<longrightarrow> authHash saved = authHash e) \<and>
            (\<not> truthy (hash_enc_item_key h) \<longrightarrow> encItemKey saved = encItemKey e) \<and>
            (\<not> truthy (hash_items_key_id h) \<longrightarrow> itemsKeyId saved = itemsKeyId e)) \<and>
         sharedVaultUuid saved = hash_shared_vault_uuid h \<and>
         keySystemIdentifier saved = hash_key_system_identifier h \<and>
         itemStore w' (uuid e) = Some saved"
proof -
  have s: "saved = entityToSave d e h user session (getTimestampInMicroseconds d (clockReadings w))"
    and st: "itemStore w' (uuid saved) = Some saved"
    using updateExistingItem_saved [OF assms] by simp_all
  have 1: "uuid saved = uuid e \<and> userUuid saved = userUuid e \<and>
         sharedVaultUuid saved = hash_shared_vault_uuid h \<and>
         keySystemIdentifier saved = hash_key_system_identifier h"
    unfolding s entityToSave_def Let_def
    by (simp add: clearIfDeleted_frame copyCreatedAt_frame copyHashFields_frame)
  have 2: "\<not> truthyType (hash_content_type h) \<longrightarrow> contentType saved = contentType e"
    unfolding s entityToSave_def Let_def
    by (simp add: clearIfDeleted_frame copyCreatedAt_frame copyHashFields_frame)
  have 3: "hash_deleted h = None \<longrightarrow> deleted saved = deleted e"
    unfolding s entityToSave_def Let_def
    by (simp add: clearIfDeleted_frame copyCreatedAt_frame copyHashFields_frame)
  have 4: "\<not> truthy (hash_duplicate_of h) \<longrightarrow> duplicateOf saved = duplicateOf e"
    unfolding s entityToSave_def Let_def
    by (simp add: clearIfDeleted_frame copyCreatedAt_frame copyHashFields_frame)
  have 5: "\<not> truthyNumber (hash_created_at_timestamp h) \<and> \<not> truthy (hash_created_at h) \<longrightarrow>
            createdAtTimestamp saved = createdAtTimestamp e \<and> createdAt saved = createdAt e"
    unfolding s entityToSave_def Let_def
    by (simp add: clearIfDeleted_frame copyCreatedAt_frame copyHashFields_frame)
  have 6: "hash_deleted h \<noteq> Some True \<longrightarrow>
            (\<not> truthy (hash_content h) \<longrightarrow> content saved = content e) \<and>
            (\<not> truthy (hash_auth_hash h) \<longrightarrow> authHash saved = authHash e) \<and>
            (\<not> truthy (hash_enc_item_key h) \<longrightarrow> encItemKey saved = encItemKey e) \<and>
            (\<not> truthy (hash_items_key_id h) \<longrightarrow> itemsKeyId saved = itemsKeyId e)"
    unfolding s entityToSave_def Let_def
    by (simp add: clearIfDeleted_frame copyCreatedAt_frame copyHashFields_frame)
  show ?thesis using 1 2 3 4 5 6 st by simp
qed

subsection \<open>A deleting hash in a batch\<close>








subsection \<open>Sample batches\<close>

lemmas save_defs = saveItems_def saveItemHash_def updateExistingItem_def saveNewItem_def
  repositorySave_def findByUuid_def afterUpdate_def publish_def entityToSave_def copyHashFields_def
  copyCreatedAt_def clearIfDeleted_def calculateSyncToken_def arraySort_def compareUpdatedAt_def
  optionToList_def
  truthy_def truthyType_def truthyNumber_def isNoteOrFile_def

lemma skip_run:
  "saveItems sampleDeps (sampleSave [sampleHash ''skip'']) (sampleWorld [sampleItem ''skip'' 60 10]) =
     Inr (\<lparr>savedItems = [sampleItem ''skip'' 60 10], conflicts = [], syncToken = TokenV2 11\<rparr>,
          (sampleWorld [sampleItem ''skip'' 60 10])\<lparr>clockReadings := 1\<rparr>)"
  by (simp add: save_defs sample_defs Let_def)

text \<open>
  C2, as stated, fails: the call begins at 100, the validator skips the only hash
  with a server item last updated at 10, and the token encodes 11 where the
  formula of the specification gives 101.
\<close>

theorem sync_token_counterexample:
  "(case saveItems sampleDeps (sampleSave [sampleHash ''skip'']) (sampleWorld [sampleItem ''skip'' 60 10]) of
      Inl e \<Rightarrow> False
    | Inr (r, w) \<Rightarrow>
        syncToken r = TokenV2 11 \<and>
        specSyncToken
          (getTimestampInMicroseconds sampleDeps (clockReadings (sampleWorld [sampleItem ''skip'' 60 10])))
          (savedItems r) = TokenV2 101)"
  by (simp add: skip_run specSyncToken_def) (simp add: sample_defs)

text \<open>C2, witness: the same batch, whose token is one past its only saved item.\<close>

theorem sync_token_value_witness:
  "\<exists>r w'. saveItems sampleDeps (sampleSave [sampleHash ''skip'']) (sampleWorld [sampleItem ''skip'' 60 10]) = Inr (r, w') \<and>
     savedItems r \<noteq> [] \<and> syncToken r = TokenV2 (Max (updatedAtTimestamp ` set (savedItems r)) + 1)"
  using sync_token_value [OF skip_run] skip_run by simp

lemma update_run:
  "saveItems sampleDeps (sampleSave [sampleHash ''A'']) (sampleWorld [sampleItem ''A'' 60 10]) =
     Inr (\<lparr>savedItems =
             [(sampleItem ''A'' 7 101)\<lparr>lastEditedByUuid := Some ''alice'', keySystemIdentifier := None,
                                       sharedVaultUuid := None\<rparr>],
            conflicts = [], syncToken = TokenV2 102\<rparr>,
          (sampleWorld [sampleItem ''A'' 60 10])
            \<lparr>itemStore := (itemStore (sampleWorld [sampleItem ''A'' 60 10]))
                 (''A'' \<mapsto> (sampleItem ''A'' 7 101)\<lparr>lastEditedByUuid := Some ''alice'',
                     keySystemIdentifier := None, sharedVaultUuid := None\<rparr>),
              clockReadings := 2\<rparr>)"
  by (simp add: save_defs sample_defs Let_def)

lemma update_step:
  "updateExistingItem sampleDeps (sampleItem ''A'' 60 10) (sampleHash ''A'') ''alice'' None
     (sampleWorld [sampleItem ''A'' 60 10]) =
   Inr ((sampleItem ''A'' 7 100)\<lparr>lastEditedByUuid := Some ''alice'', keySystemIdentifier := None,
                                   sharedVaultUuid := None\<rparr>,
        (sampleWorld [sampleItem ''A'' 60 10])
          \<lparr>itemStore := (itemStore (sampleWorld [sampleItem ''A'' 60 10]))
               (''A'' \<mapsto> (sampleItem ''A'' 7 100)\<lparr>lastEditedByUuid := Some ''alice'',
                   keySystemIdentifier := None, sharedVaultUuid := None\<rparr>),
            clockReadings := 1\<rparr>)"
  by (simp add: save_defs sample_defs Let_def)

text \<open>
  C1, as stated, fails: the item is in a vault and has a key system identifier,
  the hash names neither, and the saved and stored item has lost both.
\<close>

theorem absent_fields_counterexample:
  "sharedVaultUuid (sampleItem ''A'' 60 10) = Some ''vault'' \<and>
   keySystemIdentifier (sampleItem ''A'' 60 10) = Some ''ks'' \<and>
   hash_shared_vault_uuid (sampleHash ''A'') = None \<and>
   hash_key_system_identifier (sampleHash ''A'') = None \<and>
   (case saveItems sampleDeps (sampleSave [sampleHash ''A'']) (sampleWorld [sampleItem ''A'' 60 10]) of
      Inl e \<Rightarrow> False
    | Inr (r, w) \<Rightarrow>
        map sharedVaultUuid (savedItems r) = [None] \<and>
        map keySystemIdentifier (savedItems r) = [None] \<and>
        map_option sharedVaultUuid (itemStore w ''A'') = Some None \<and>
        map_option keySystemIdentifier (itemStore w ''A'') = Some None)"
  by (simp add: update_run) (simp add: sample_defs)

text \<open>
  C1, witness: the same update keeps the content, the content type, the deleted
  flag, the item key and the creation time, which the hash leaves out.
\<close>

theorem absent_fields_kept_witness:
  "\<exists>saved w'.
     updateExistingItem sampleDeps (sampleItem ''A'' 60 10) (sampleHash ''A'') ''alice'' None
       (sampleWorld [sampleItem ''A'' 60 10]) = Inr (saved, w') \<and>
     \<not> truthy (hash_content (sampleHash ''A'')) \<and> hash_deleted (sampleHash ''A'') = None \<and>
     content saved = Some ''payload'' \<and> contentType saved = Some Note \<and> \<not> deleted saved \<and>
     encItemKey saved = Some ''key'' \<and> createdAtTimestamp saved = 1 \<and>
     sharedVaultUuid saved = None \<and> itemStore w' ''A'' = Some saved"
proof -
  note k = absent_fields_kept [OF update_step]
  have "\<not> truthy (hash_content (sampleHash ''A''))" "hash_deleted (sampleHash ''A'') = None"
    "\<not> truthyType (hash_content_type (sampleHash ''A''))"
    "\<not> truthy (hash_enc_item_key (sampleHash ''A''))"
    "\<not> truthyNumber (hash_created_at_timestamp (sampleHash ''A''))"
    "\<not> truthy (hash_created_at (sampleHash ''A''))"
    "hash_shared_vault_uuid (sampleHash ''A'') = None"
    by (simp_all add: sampleHash_def truthy_def truthyType_def truthyNumber_def)
  moreover have "content (sampleItem ''A'' 60 10) = Some ''payload''"
    "contentType (sampleItem ''A'' 60 10) = Some Note" "\<not> deleted (sampleItem ''A'' 60 10)"
    "encItemKey (sampleItem ''A'' 60 10) = Some ''key''" "createdAtTimestamp (sampleItem ''A'' 60 10) = 1"
    "uuid (sampleItem ''A'' 60 10) = ''A''"
    by (simp_all add: sampleItem_def)
  ultimately show ?thesis using k update_step by simp
qed




text \<open>
  C5 at a batch of two: the first hash updates item \<open>A\<close> at the clock reading
  101, the second is skipped with a server item last updated at 20. The result
  lists the skipped item before \<open>A\<close>: the sort inside \<^verbatim>\<open>calculateSyncToken\<close>
  reorders the array that is returned.
\<close>

theorem saved_items_order_evaluated:
  "map hash_uuid (save_itemHashes (sampleSave [sampleHash ''A'', sampleHash ''skip''])) = [''A'', ''skip''] \<and>
   (case saveItems sampleDeps (sampleSave [sampleHash ''A'', sampleHash ''skip''])
           (sampleWorld [sampleItem ''A'' 60 10, sampleItem ''skip'' 60 20]) of
      Inl e \<Rightarrow> False
    | Inr (r, w) \<Rightarrow>
        map uuid (savedItems r) = [''skip'', ''A''] \<and>
        map updatedAtTimestamp (savedItems r) = [20, 101] \<and> conflicts r = [])"
  by (simp add: save_defs sample_defs Let_def)

text \<open>
  C6 at a batch of two whose first save throws. When the first hash names a
  stored item the error leaves \<^verbatim>\<open>saveItems\<close> and the second hash is never
  reached; when it names a new item the error becomes a uuid conflict and the
  second hash is saved.
\<close>

theorem failed_update_aborts_evaluated:
  "saveItems sampleDeps (sampleSave [sampleHash ''broken'', sampleHash ''B''])
     (sampleWorld [sampleItem ''broken'' 60 10]) = Inl (RepositoryError ''deadlock'') \<and>
   (case saveItems sampleDeps (sampleSave [sampleHash ''broken'', sampleHash ''B'']) (sampleWorld []) of
      Inl e \<Rightarrow> False
    | Inr (r, w) \<Rightarrow>
        map (\<lambda>c. (hash_uuid (unsavedItem c), conflictType c)) (conflicts r) = [(''broken'', UuidConflict)] \<and>
        map uuid (savedItems r) = [''B''])"
  by (simp add: save_defs sample_defs Let_def)

section \<open>Properties of the transition\<close>

subsection \<open>What the copy leaves in the primary repository\<close>















subsection \<open>The check and the clean-up leave the primary repository alone\<close>









subsection \<open>The loops over a finite number of pages end\<close>






subsection \<open>A run in which nothing throws\<close>




subsection \<open>The precondition\<close>


subsection \<open>Sample runs\<close>

lemmas transition_defs = execute_def migrateAndVerify_def migrateItemsForUser_def
  checkIntegrityBetweenPrimaryAndSecondaryDatabase_def cleanUpAndFinish_def integrityCheckFailed_def
  deleteItemsForUser_def isAlreadyMigrated_def migratePage_def checkPage_def migrateItem_def
  updateTransitionStatus_def allowForPrimaryDatabaseToCatchUp_def
  secondaryCountAll_def primaryCountAll_def secondaryFindAll_def primaryFindByUuid_def
  primaryRemoveByUuid_def primarySave_def secondaryDeleteByUserUuidAndNotInSharedVault_def
  getPagingProgress_def setPagingProgress_def getIntegrityProgress_def setIntegrityProgress_def
  attempt_def logInfo_def rowsOfUser_def pageOfUser_def rowByUuid_def withoutUuid_def upserted_def
  withoutPrivateRowsOfUser_def mathCeilOfQuotient_def pageWithin_def isPageInEvery10Percent_def

lemmas transition_sample_defs = sampleTransitionDeps_def failingCleanUpDeps_def
  sampleTransitionItem_def sampleTransitionWorld_def sampleTransition_def





text \<open>
  C8 at a run whose clean-up throws: the use case publishes \<open>Failed\<close>, goes on,
  publishes \<open>Verified\<close> and returns successfully.
\<close>

theorem failed_then_verified_evaluated:
  "(case execute failingCleanUpDeps sampleTransition (sampleTransitionWorld [] [newerItem]) of
      Some (Inr Ok, w') \<Rightarrow> map statusOf (publishedEvents w') = [InProgress, Failed, Verified]
    | _ \<Rightarrow> False)"
  by (simp add: transition_defs transition_sample_defs newerItem_def migratePages.simps checkPages.simps
      Let_def statusOf_def)

end
